theory Spec2Isabelle
  imports Main "HOL-Library.Word" "HOL-Library.Monad_Syntax"
begin

unbundle bit_operations_syntax

section \<open>The L2OAM engine of the EPON OLT adapter\<close>

text \<open>
  A shallow embedding of the parts of the adapter that the specification makes claims
  about: the frame codec of package \<open>l2oam\<close>, the correlation-tag allocator, the ONU
  status ledger, the dispatcher and the add-flow-to-device sequence of package \<open>core\<close>.

  Go's \<open>uint8\<close>, \<open>uint16\<close> and \<open>uint32\<close> are words of that width, \<open>int\<close> (lengths and
  indices, never near 64 bits here) is \<open>nat\<close>, a \<open>[]byte\<close> is a list of bytes (a nil
  slice and an empty one are both \<open>[]\<close>; where the code tells them apart the slice is
  an \<open>option\<close>). A run-time panic (index or slice bounds out of range) is the value
  \<open>None\<close> of an \<open>option\<close>; an \<open>error\<close> the code returns is the \<open>Inl\<close> of a sum.
  Fields of different structs that share a name carry a prefix for their struct
  (\<open>gr_\<close> for \<open>TOAMGetRequest\<close>, \<open>oc_\<close> for \<open>TomiObjectContext\<close>, and so on).
\<close>

type_synonym u8 = "8 word"
type_synonym u16 = "16 word"
type_synonym u32 = "32 word"
type_synonym bytes = "u8 list"

subsection \<open>The ONU status ledger (file \<open>onu_list.json\<close>)\<close>

record OnuStatus =
  ID :: string
  AdminState :: string
  OpeState :: string
  ConnectState :: string
  MacAddress :: string
  RebootState :: string

text \<open>
  What \<open>ioutil.ReadFile\<close> followed by \<open>json.Unmarshal\<close> can meet at
  \<open>$HOME/onu_list.json\<close>: no file, a file that cannot be read, bytes that are not a
  JSON list of records, or a document. The document \<open>null\<close> unmarshals to the nil slice
  (\<open>Document None\<close>), a JSON array to a slice.
\<close>

datatype onu_file = NotExist | Unreadable | Malformed | Document "OnuStatus list option"

datatype ledger_error = UnmarshalError

text \<open>
  \<open>ReadOnuStatusList\<close>: an absent file is \<open>(nil, nil)\<close>. Any other read error falls
  through to \<open>json.Unmarshal\<close> of no bytes, which fails.
\<close>

fun ReadOnuStatusList :: "onu_file \<Rightarrow> ledger_error + OnuStatus list option" where
  "ReadOnuStatusList NotExist = Inr None"
| "ReadOnuStatusList Unreadable = Inl UnmarshalError"
| "ReadOnuStatusList Malformed = Inl UnmarshalError"
| "ReadOnuStatusList (Document l) = Inr l"

text \<open>The loop of \<open>GetOnuFromDeviceID\<close>: \<open>if sts.ID != id { return &sts, nil }\<close>.\<close>

primrec GetOnuFromDeviceID_loop :: "OnuStatus list \<Rightarrow> string \<Rightarrow> OnuStatus option" where
  "GetOnuFromDeviceID_loop [] id' = None"
| "GetOnuFromDeviceID_loop (sts # rest) id' =
     (if ID sts \<noteq> id' then Some sts else GetOnuFromDeviceID_loop rest id')"

definition GetOnuFromDeviceID :: "onu_file \<Rightarrow> string \<Rightarrow> ledger_error + OnuStatus option" where
  "GetOnuFromDeviceID file id' =
     (case ReadOnuStatusList file of
        Inl err \<Rightarrow> Inl err
      | Inr None \<Rightarrow> Inr None
      | Inr (Some list) \<Rightarrow> Inr (GetOnuFromDeviceID_loop list id'))"

subsection \<open>The correlation-tag allocator\<close>

text \<open>
  \<open>var instance uint32 = 0x5c1f6a60\<close>. \<open>getOltInstance\<close> holds the mutex for its whole
  body, so a call is one step on the counter: it returns the incremented value and
  leaves it in the counter. The addition is Go's \<open>uint32\<close> addition, which wraps.
\<close>

definition instance_init :: u32 where
  "instance_init = 0x5c1f6a60"

definition getOltInstance :: "u32 \<Rightarrow> u32 \<times> u32" where
  "getOltInstance instance = (let instance' = instance + 1 in (instance', instance'))"


record TOAMGetRequest =
  gr_Opcode :: u8
  gr_Flags :: u16
  gr_OAMPDUCode :: u8
  gr_OUId :: bytes
  gr_TOMIOpcode :: u8
  gr_CTBranch :: u8
  gr_CTType :: u16
  gr_CTLength :: u8
  gr_CTInstance :: u32
  gr_OCBranch :: u8
  gr_OCType :: u16
  gr_OCLength :: u8
  gr_OCInstance :: u32
  gr_VdBranch :: u8
  gr_VdLeaf :: u16
  gr_EndBranch :: u8

text \<open>
  The generators of Get requests read the allocator, so they take the counter and
  return it updated. They differ in the object context type and the Vd pair only.
\<close>

definition GnerateGetVendorName :: "u32 \<Rightarrow> TOAMGetRequest \<times> u32" where
  "GnerateGetVendorName instance =
     (case getOltInstance instance of (ct, instance') \<Rightarrow>
        (\<lparr>gr_Opcode = 0x03, gr_Flags = 0x0050, gr_OAMPDUCode = 0xfe,
          gr_OUId = [0x2a, 0xea, 0x15], gr_TOMIOpcode = 0x01,
          gr_CTBranch = 0x0c, gr_CTType = 0x0c7a, gr_CTLength = 4, gr_CTInstance = ct,
          gr_OCBranch = 0x0c, gr_OCType = 0x0dce, gr_OCLength = 4, gr_OCInstance = 0,
          gr_VdBranch = 0xde, gr_VdLeaf = 0x0009, gr_EndBranch = 0x00\<rparr>, instance'))"



text \<open>
  The generators of OLT-management requests in the repository, by the message they
  build, and the correlation-tag instance of the request each one builds. All but one
  fill it with one call of \<open>getOltInstance()\<close> (\<open>GenerateSetActionReset\<close> writes that
  value into bytes 12 to 15 of its literal frame); \<open>GeneratePcscompuTivitcom\<close> sets
  \<open>CTInstance: 0x00000003\<close> and does not touch the counter.
\<close>

datatype tomi_generator =
    L2switchingDomainActionLnletEntryUs
  | GetFirmwareVersion
  | SetActionReset
  | ManuFacturerInfo
  | CaptureProtocols
  | SetTrafficProfile
  | BestEffortRate
  | GetVendorName
  | GenericActionCreateDs
  | L2switchingDomainActionLnletEntryDs
  | GetTrafficControlReferenceTableReq
  | L2switchingDomainActionInletEntryUsDel
  | L2switchingDomainActionInletEntryDsDel
  | GetPonMode
  | SetHbtxPeriod
  | IngressPort
  | SetDefaultOutlet
  | SetManagementLock
  | GetSerialNumber
  | GetMacAddress
  | Priority
  | SetActionDelete
  | SetActionDeleteStream
  | SetHbtxTemplate
  | GuaranteedMbs
  | GenericActionCreate
  | PcscompuTivitcom



subsection \<open>Byte buffers\<close>

text \<open>
  \<open>b.PrependBytes(plen)\<close> on the fresh buffer of \<open>CreateMessage\<close> yields \<open>plen\<close> zero
  bytes whose capacity is their length, so every index and slice expression of a
  serializer is checked against \<open>plen\<close>. The decoders are modelled on input slices
  whose capacity is their length as well.
\<close>

definition make_bytes :: "nat \<Rightarrow> bytes" where
  "make_bytes n = replicate n 0"

text \<open>\<open>data[i] = v\<close> and \<open>data[i]\<close>: index out of range panics.\<close>

definition put8 :: "bytes \<Rightarrow> nat \<Rightarrow> u8 \<Rightarrow> bytes option" where
  "put8 data i v = (if i < length data then Some (data[i := v]) else None)"

definition get8 :: "bytes \<Rightarrow> nat \<Rightarrow> u8 option" where
  "get8 data i = (if i < length data then Some (data ! i) else None)"

text \<open>
  \<open>data[lo:hi]\<close> panics unless \<open>lo \<le> hi \<le> cap(data)\<close>.
  \<open>copy(data[lo:hi], src)\<close> copies \<open>min(hi - lo, len(src))\<close> bytes.
\<close>

definition slice :: "bytes \<Rightarrow> nat \<Rightarrow> nat \<Rightarrow> bytes option" where
  "slice data lo hi =
     (if lo \<le> hi \<and> hi \<le> length data then Some (take (hi - lo) (drop lo data)) else None)"

definition copy_bytes :: "bytes \<Rightarrow> nat \<Rightarrow> nat \<Rightarrow> bytes \<Rightarrow> bytes option" where
  "copy_bytes data lo hi src =
     (if lo \<le> hi \<and> hi \<le> length data
      then Some (take lo data @ take (hi - lo) src
                 @ drop (lo + min (hi - lo) (length src)) data)
      else None)"

text \<open>\<open>binary.BigEndian\<close>: \<open>PutUint16(data[i:i+2], v)\<close>, \<open>Uint16(data[i:i+2])\<close> and the 32-bit ones.\<close>

definition be16 :: "u16 \<Rightarrow> bytes" where
  "be16 v = [ucast (drop_bit 8 v), ucast v]"

definition be32 :: "u32 \<Rightarrow> bytes" where
  "be32 v = [ucast (drop_bit 24 v), ucast (drop_bit 16 v), ucast (drop_bit 8 v), ucast v]"

definition PutUint16 :: "bytes \<Rightarrow> nat \<Rightarrow> u16 \<Rightarrow> bytes option" where
  "PutUint16 data i v = copy_bytes data i (i + 2) (be16 v)"

definition PutUint32 :: "bytes \<Rightarrow> nat \<Rightarrow> u32 \<Rightarrow> bytes option" where
  "PutUint32 data i v = copy_bytes data i (i + 4) (be32 v)"

definition Uint16 :: "bytes \<Rightarrow> nat \<Rightarrow> u16 option" where
  "Uint16 data i =
     (case slice data i (i + 2) of
        Some [b0, b1] \<Rightarrow> Some (push_bit 8 (ucast b0) OR ucast b1)
      | _ \<Rightarrow> None)"

text \<open>
  A proof device, not part of the program: the buffer of a serializer that has written
  \<open>pre\<close> so far into \<open>n\<close> zero bytes.
\<close>

definition zero_padded :: "bytes \<Rightarrow> nat \<Rightarrow> bytes" where
  "zero_padded pre n = pre @ replicate (n - length pre) 0"

subsection \<open>The TOMI Get request\<close>

definition TOAMGetRequest_Len :: "TOAMGetRequest \<Rightarrow> nat" where
  "TOAMGetRequest_Len d = 29"

definition TOAMGetRequest_SerializeTo :: "TOAMGetRequest \<Rightarrow> bytes option" where
  "TOAMGetRequest_SerializeTo d = do {
     let plen = TOAMGetRequest_Len d;
     let data = make_bytes plen;
     let i = 0;
     data \<leftarrow> put8 data i (gr_Opcode d);
     let i = i + 1;
     data \<leftarrow> PutUint16 data i (gr_Flags d);
     let i = i + 2;
     data \<leftarrow> put8 data i (gr_OAMPDUCode d);
     let i = i + 1;
     data \<leftarrow> copy_bytes data i (i + length (gr_OUId d)) (gr_OUId d);
     let i = i + length (gr_OUId d);
     data \<leftarrow> put8 data i (gr_TOMIOpcode d);
     let i = i + 1;
     data \<leftarrow> put8 data i (gr_CTBranch d);
     let i = i + 1;
     data \<leftarrow> PutUint16 data i (gr_CTType d);
     let i = i + 2;
     data \<leftarrow> put8 data i (gr_CTLength d);
     let i = i + 1;
     data \<leftarrow> PutUint32 data i (gr_CTInstance d);
     let i = i + 4;
     data \<leftarrow> put8 data i (gr_OCBranch d);
     let i = i + 1;
     data \<leftarrow> PutUint16 data i (gr_OCType d);
     let i = i + 2;
     data \<leftarrow> put8 data i (gr_OCLength d);
     let i = i + 1;
     data \<leftarrow> PutUint32 data i (gr_OCInstance d);
     let i = i + 4;
     data \<leftarrow> put8 data i (gr_VdBranch d);
     let i = i + 1;
     data \<leftarrow> PutUint16 data i (gr_VdLeaf d);
     let i = i + 2;
     data \<leftarrow> put8 data i (gr_EndBranch d);
     Some data
   }"

subsection \<open>TPID/VID entries of the L2 switching domain request\<close>

record TpidVid =
  tv_Length :: u8
  tv_TpIDLength :: u8
  tv_TpIDValue :: bytes
  tv_VIdLength :: u8
  tv_VIdValue :: bytes

text \<open>
  \<open>serializeTpidVid(tpidVid, data, startIndex)\<close> writes into the caller's buffer and
  returns the next index; the model returns the buffer as well.
\<close>

definition serializeTpidVid :: "TpidVid \<Rightarrow> bytes \<Rightarrow> nat \<Rightarrow> (bytes \<times> nat) option" where
  "serializeTpidVid tpidVid data startIndex = do {
     let i = startIndex;
     data \<leftarrow> put8 data i (tv_Length tpidVid);
     let i = i + 1;
     let ln = tv_TpIDLength tpidVid;
     data \<leftarrow> put8 data i ln;
     let i = i + 1;
     (data, i) \<leftarrow>
       (if ln \<noteq> 128
        then do {
          data \<leftarrow> copy_bytes data i (i + unat ln) (tv_TpIDValue tpidVid);
          Some (data, i + unat ln) }
        else Some (data, i));
     let ln = tv_VIdLength tpidVid;
     data \<leftarrow> put8 data i ln;
     let i = i + 1;
     (data, i) \<leftarrow>
       (if ln \<noteq> 128
        then do {
          data \<leftarrow> copy_bytes data i (i + unat ln) (tv_VIdValue tpidVid);
          Some (data, i + unat ln) }
        else Some (data, i));
     Some (data, i)
   }"

subsection \<open>OAMPDU Information (keep-alive)\<close>

record OAMPDUInformation =
  oi_Opcode :: u8
  oi_Flags :: u16
  oi_Code :: u8
  oi_LIType :: u8
  oi_LILength :: u8
  oi_LIValue :: bytes
  oi_RIType :: u8
  oi_RILength :: u8
  oi_RIValue :: bytes
  oi_OSIType :: u8
  oi_OSILength :: u8
  oi_OSIValue :: bytes

text \<open>
  \<open>IsOnuPkgA\<close> and \<open>IsOnuPkgB\<close>. The conjunction \<open>&&\<close> evaluates left to right and
  stops at the first false operand; each \<open>d.OSIValue[k]\<close> it reaches is bounds-checked.
\<close>

definition IsOnuPkgA :: "OAMPDUInformation \<Rightarrow> bool option" where
  "IsOnuPkgA d =
     (if oi_OSILength d = 0 then Some True
      else if oi_OSILength d = 7 then do {
        b0 \<leftarrow> get8 (oi_OSIValue d) 0;
        if b0 \<noteq> 0x00 then Some False else do {
          b1 \<leftarrow> get8 (oi_OSIValue d) 1;
          if b1 \<noteq> 0x10 then Some False else do {
            b2 \<leftarrow> get8 (oi_OSIValue d) 2;
            Some (b2 = 0x00) } } }
      else Some False)"

definition IsOnuPkgB :: "OAMPDUInformation \<Rightarrow> bool option" where
  "IsOnuPkgB d =
     (if oi_OSILength d = 0 then Some True
      else if oi_OSILength d = 7 then do {
        b0 \<leftarrow> get8 (oi_OSIValue d) 0;
        if b0 \<noteq> 0x90 then Some False else do {
          b1 \<leftarrow> get8 (oi_OSIValue d) 1;
          if b1 \<noteq> 0x82 then Some False else do {
            b2 \<leftarrow> get8 (oi_OSIValue d) 2;
            Some (b2 = 0x60) } } }
      else Some False)"

subsection \<open>The dispatcher\<close>

text \<open>
  The fields of gopacket's \<open>layers.Ethernet\<close> and \<open>layers.Dot1Q\<close> that the dispatcher
  reads. \<open>Contents\<close> is the 14-byte Ethernet header, \<open>Payload\<close> what follows it.
\<close>

record Ethernet =
  Contents :: bytes
  Payload :: bytes
  SrcMAC :: bytes
  DstMAC :: bytes
  EthernetType :: u16

record Dot1Q =
  Dot1Q_Type :: u16
  Dot1Q_Payload :: bytes

record PacketIndication =
  IntfId :: u32
  GemportId :: u32
  PortNo :: u32
  Pkt :: bytes
  IntfType :: string

text \<open>
  What a call of the dispatcher does, in order: log entries (level and format string),
  the hand-over of the frame to a method of the device found for the source MAC, and the
  packet-in, which is the call of \<open>handlePacketIndication\<close>.
\<close>

datatype log_level = Debug | Info | Error

datatype 'dev action =
    Log log_level string
  | receiveEapol 'dev Ethernet
  | recieveKeepAlive 'dev Ethernet
  | recieve 'dev Ethernet
  | handlePacketIndication PacketIndication

text \<open>\<open>hex.EncodeToString\<close>: two lower-case hexadecimal digits for each byte.\<close>

definition hex_digit :: "nat \<Rightarrow> char" where
  "hex_digit n = ''0123456789abcdef'' ! n"

definition hex_EncodeToString :: "bytes \<Rightarrow> string" where
  "hex_EncodeToString src = concat (map (\<lambda>b. [hex_digit (unat b div 16), hex_digit (unat b mod 16)]) src)"

text \<open>
  \<open>packetIn\<close>. The handler's outcome is a parameter (\<open>hpiFails\<close>: whether
  \<open>handlePacketIndication\<close> returns an error for this indication).
\<close>

definition packetIn :: "(PacketIndication \<Rightarrow> bool) \<Rightarrow> Ethernet \<Rightarrow> 'dev action list" where
  "packetIn hpiFails etherPacket =
     (let packetBytes = Contents etherPacket @ Payload etherPacket;
          pktInd = \<lparr>IntfId = 0, GemportId = 1, PortNo = 16, Pkt = packetBytes, IntfType = ''pon''\<rparr>
      in [Log Info ''L2oamHandle.packetIn() pktInd=%x'', handlePacketIndication pktInd]
         @ (if hpiFails pktInd then [Log Error ''L2oamHandle.packetIn() error. ''] else []))"

text \<open>
  \<open>dispatch\<close>. The registry lookup \<open>FindL2oamDevice\<close> is a parameter: a partial
  function from the MAC string to a device. Reading \<open>bytes[0]\<close> and \<open>bytes[3]\<close> of a
  slow-protocol payload shorter than four bytes panics.
\<close>

definition dispatch ::
  "(string \<Rightarrow> 'dev option) \<Rightarrow> (PacketIndication \<Rightarrow> bool) \<Rightarrow> Ethernet \<Rightarrow> 'dev action list option" where
  "dispatch FindL2oamDevice hpiFails etherPacket =
     (let etherType = EthernetType etherPacket in
      if etherType = 0x888e then
        (case FindL2oamDevice (hex_EncodeToString (SrcMAC etherPacket)) of
           None \<Rightarrow>
             Some ([Log Debug ''dispatch(). %x'',
                    Log Debug ''receive message = EAPOL, Contents=%x, Payload=%x'',
                    Log Error ''Received from an unregistered device. macAddr=%s'']
                   @ packetIn hpiFails etherPacket)
         | Some device \<Rightarrow>
             Some [Log Debug ''dispatch(). %x'',
                   Log Debug ''receive message = EAPOL, Contents=%x, Payload=%x'',
                   receiveEapol device etherPacket])
      else if etherType = 0xa8c8 then do {
        let bytes = Payload etherPacket;
        opcode \<leftarrow> get8 bytes 0;
        oampduCode \<leftarrow> get8 bytes 3;
        (case FindL2oamDevice (hex_EncodeToString (SrcMAC etherPacket)) of
           None \<Rightarrow>
             Some [Log Debug ''dispatch(). %x'',
                   Log Debug ''receive message = 1904.2 OAM opcode=%v oampduCode=%v,  %x'',
                   Log Error ''Received from an unregistered device. macAddr=%s'']
         | Some device \<Rightarrow>
             Some [Log Debug ''dispatch(). %x'',
                   Log Debug ''receive message = 1904.2 OAM opcode=%v oampduCode=%v,  %x'',
                   if opcode = 0x03 \<and> oampduCode = 0x00
                   then recieveKeepAlive device etherPacket
                   else recieve device etherPacket]) }
      else if etherType = 0x8100 then
        (case FindL2oamDevice (hex_EncodeToString (SrcMAC etherPacket)) of
           None \<Rightarrow>
             Some ([Log Debug ''dispatch(). %x'',
                    Log Error ''Received from an unregistered device. macAddr=%s'']
                   @ packetIn hpiFails etherPacket)
         | Some device \<Rightarrow>
             Some [Log Debug ''dispatch(). %x'', receiveEapol device etherPacket])
      else Some [Log Debug ''dispatch(). %x'', Log Error ''unknown etherType = 0x%X''])"

text \<open>
  \<open>dispatchVlan\<close>. gopacket's two decoders are parameters: each yields whether it
  returned an error and the struct it leaves behind, or panics (\<open>None\<close>).
  \<open>binary.BigEndian.PutUint16(etherBytes[12:], ...)\<close> needs 14 bytes of header.
\<close>

record gopacket =
  Dot1Q_DecodeFromBytes :: "bytes \<Rightarrow> (bool \<times> Dot1Q) option"
  Ethernet_DecodeFromBytes :: "bytes \<Rightarrow> (bool \<times> Ethernet) option"

definition dispatchVlan ::
  "gopacket \<Rightarrow> (string \<Rightarrow> 'dev option) \<Rightarrow> (PacketIndication \<Rightarrow> bool) \<Rightarrow> Ethernet
   \<Rightarrow> 'dev action list option" where
  "dispatchVlan lib FindL2oamDevice hpiFails etherPacket =
     (let etherType = EthernetType etherPacket in
      if etherType = 0x88a8 then do {
        (err1, vlanPacket) \<leftarrow> Dot1Q_DecodeFromBytes lib (Payload etherPacket);
        let etherBytes = Contents etherPacket;
        etherBytes \<leftarrow> PutUint16 etherBytes 12 (Dot1Q_Type vlanPacket);
        let packetBytes = etherBytes @ Dot1Q_Payload vlanPacket;
        (err2, etherPacket') \<leftarrow> Ethernet_DecodeFromBytes lib packetBytes;
        acts \<leftarrow> dispatch FindL2oamDevice hpiFails etherPacket';
        Some ([Log Debug ''dispatchVlan(). %x'']
              @ (if err1 then [Log Debug ''error:%v''] else [])
              @ (if err2 then [Log Debug ''error:%v''] else [])
              @ acts) }
      else Some [Log Debug ''dispatchVlan(). %x'',
                 Log Error ''Discard unsupported etherType. 0x%X''])"

text \<open>
  \<open>const vlanEnable = true\<close>, and what \<open>startThread\<close> does with a received packet
  that has an Ethernet layer.
\<close>

definition vlanEnable :: bool where
  "vlanEnable = True"

definition startThread_receive ::
  "gopacket \<Rightarrow> (string \<Rightarrow> 'dev option) \<Rightarrow> (PacketIndication \<Rightarrow> bool) \<Rightarrow> Ethernet
   \<Rightarrow> 'dev action list option" where
  "startThread_receive lib FindL2oamDevice hpiFails etherPacket = do {
     acts \<leftarrow> (if vlanEnable then dispatchVlan lib FindL2oamDevice hpiFails etherPacket
              else dispatch FindL2oamDevice hpiFails etherPacket);
     Some ([Log Debug ''gopacket receive. %x'', Log Debug ''gopacket ether receive. %x''] @ acts) }"

subsection \<open>The poll loop of the ONU status ledger\<close>

text \<open>
  \<open>GenerateSetResetOnu\<close>: the literal frame of the package variant
  (\<open>OnuPkgTypeB = "PkgB"\<close>; any other string gives the variant A frame).
\<close>

definition OnuPkgTypeB :: string where
  "OnuPkgTypeB = ''PkgB''"

definition GenerateSetResetOnu :: "string \<Rightarrow> bytes" where
  "GenerateSetResetOnu pkgType =
     (if pkgType = OnuPkgTypeB
      then [0x03, 0x00, 0x50, 0xfe, 0x90, 0x82, 0x60, 0x03,
            0xca, 0xfe, 0x00, 0xb9, 0x00, 0x0e, 0x01, 0x01,
            0x00, 0x00]
      else [0x03, 0x00, 0x50, 0xfe, 0x00, 0x10, 0x00, 0x03,
            0xd6, 0x00, 0x00, 0xd9, 0x00, 0x01, 0x80, 0x00,
            0x00])"

text \<open>
  What one iteration of the loop of \<open>WatchStatus\<close> does to the outside: the frames it
  hands to \<open>onuDevice.send\<close> and the list it hands to \<open>WriteOnuStatusList\<close>, in order.
  The loop runs once per tick of \<open>time.NewTicker(1000 * time.Millisecond)\<close>.
\<close>

datatype 'dev ledger_action =
    send 'dev bytes
  | WriteOnuStatusList "OnuStatus list option"

definition WatchStatus_ticker_ms :: nat where
  "WatchStatus_ticker_ms = 1000"

text \<open>
  The body of \<open>for i, onu := range onuList\<close>. A record in state \<open>"reboot"\<close> has its
  flag cleared in the list at once; when \<open>FindL2oamDevice(onu.MacAddress)\<close> finds no
  device the body continues with the next record. A failed \<open>send\<close>, a \<open>waitResponse\<close>
  that times out and one that succeeds all end the body in the same way, so the outcome
  of the exchange is not a parameter. The result is the updated list and the frames sent.
\<close>

fun WatchStatus_range ::
  "(string \<Rightarrow> 'dev option) \<Rightarrow> string \<Rightarrow> OnuStatus list \<Rightarrow> OnuStatus list \<times> 'dev ledger_action list" where
  "WatchStatus_range FindL2oamDevice OnuPkgType [] = ([], [])"
| "WatchStatus_range FindL2oamDevice OnuPkgType (onu # rest) =
     (case WatchStatus_range FindL2oamDevice OnuPkgType rest of (rest', acts) \<Rightarrow>
        if RebootState onu = ''reboot'' then
          (case FindL2oamDevice (MacAddress onu) of
             None \<Rightarrow> (onu\<lparr>RebootState := ''''\<rparr> # rest', acts)
           | Some onuDevice \<Rightarrow>
               (onu\<lparr>RebootState := ''''\<rparr> # rest',
                send onuDevice (GenerateSetResetOnu OnuPkgType) # acts))
        else (onu # rest', acts))"

text \<open>
  One iteration: nothing happens when the read fails; otherwise the list (nil for an
  absent file or the document \<open>null\<close>) is walked and then written back whole.
\<close>

definition WatchStatus_tick ::
  "(string \<Rightarrow> 'dev option) \<Rightarrow> string \<Rightarrow> onu_file \<Rightarrow> 'dev ledger_action list" where
  "WatchStatus_tick FindL2oamDevice OnuPkgType file =
     (case ReadOnuStatusList file of
        Inl err \<Rightarrow> []
      | Inr None \<Rightarrow> [WriteOnuStatusList None]
      | Inr (Some onuList) \<Rightarrow>
          (case WatchStatus_range FindL2oamDevice OnuPkgType onuList of
             (onuList', acts) \<Rightarrow> acts @ [WriteOnuStatusList (Some onuList')]))"

subsection \<open>Discovery Solicit and Hello\<close>

text \<open>
  The two discovery structs without the embedded \<open>layers.BaseLayer\<close>, which neither
  \<open>SerializeTo\<close> nor \<open>Decode\<close> touches. Every field of a TLV is \<open>{type: u8, length:
  u16, value}\<close>; \<open>Length\<close> is the length of what follows it without the padding TLV.
\<close>

record DiscoverySolicit =
  ds_Opcode :: u8
  ds_DiscoveryType :: u8
  ds_VendorType :: u8
  ds_Length :: u16
  ds_VendorIDType :: u8
  ds_VendorIDLength :: u16
  ds_VendorID :: bytes
  ds_CPType :: u8
  ds_CPLength :: u16
  ds_CPValue :: bytes
  ds_NWType :: u8
  ds_NWLength :: u16
  ds_NWValue :: bytes
  ds_DVType :: u8
  ds_DVLength :: u16
  ds_DVValue :: bytes
  ds_SCPType :: u8
  ds_SCPLength :: u16
  ds_SCPValue :: bytes
  ds_PadType :: u8
  ds_PadLength :: u16
  ds_PadValue :: bytes

record DiscoveryHello =
  dh_Opcode :: u8
  dh_DiscoveryType :: u8
  dh_VendorType :: u8
  dh_Length :: u16
  dh_VendorIDType :: u8
  dh_VendorIDLength :: u16
  dh_VendorID :: bytes
  dh_NWType :: u8
  dh_NWLength :: u16
  dh_NWValue :: bytes
  dh_DVType :: u8
  dh_DVLength :: u16
  dh_DVValue :: bytes
  dh_SCPType :: u8
  dh_SCPLength :: u16
  dh_SCPValue :: bytes
  dh_TunnelType :: u8
  dh_TunnelLength :: u16
  dh_TunnelValue :: bytes
  dh_PadType :: u8
  dh_PadLength :: u16
  dh_PadValue :: bytes

text \<open>
  \<open>SerializeTo\<close> writes field after field into the \<open>Len()\<close> zero bytes that
  \<open>PrependBytes\<close> returns; a write past them panics.
\<close>

definition DiscoverySolicit_Len :: "DiscoverySolicit \<Rightarrow> nat" where
  "DiscoverySolicit_Len d = (2) + (3) + unat (ds_Length d) + (unat (ds_PadLength d) + 3)"

definition DiscoverySolicit_SerializeTo :: "DiscoverySolicit \<Rightarrow> bytes option" where
  "DiscoverySolicit_SerializeTo d = do {
     let plen = DiscoverySolicit_Len d;
     let data = make_bytes plen;
     let i = 0;
     data \<leftarrow> put8 data i (ds_Opcode d);
     let i = i + 1;
     data \<leftarrow> put8 data i (ds_DiscoveryType d);
     let i = i + 1;
     data \<leftarrow> put8 data i (ds_VendorType d);
     let i = i + 1;
     data \<leftarrow> PutUint16 data i (ds_Length d);
     let i = i + 2;
     data \<leftarrow> put8 data i (ds_VendorIDType d);
     let i = i + 1;
     data \<leftarrow> PutUint16 data i (ds_VendorIDLength d);
     let i = i + 2;
     data \<leftarrow> copy_bytes data i (i + unat (ds_VendorIDLength d)) (ds_VendorID d);
     let i = i + unat (ds_VendorIDLength d);
     data \<leftarrow> put8 data i (ds_CPType d);
     let i = i + 1;
     data \<leftarrow> PutUint16 data i (ds_CPLength d);
     let i = i + 2;
     data \<leftarrow> copy_bytes data i (i + unat (ds_CPLength d)) (ds_CPValue d);
     let i = i + unat (ds_CPLength d);
     data \<leftarrow> put8 data i (ds_NWType d);
     let i = i + 1;
     data \<leftarrow> PutUint16 data i (ds_NWLength d);
     let i = i + 2;
     data \<leftarrow> copy_bytes data i (i + unat (ds_NWLength d)) (ds_NWValue d);
     let i = i + unat (ds_NWLength d);
     data \<leftarrow> put8 data i (ds_DVType d);
     let i = i + 1;
     data \<leftarrow> PutUint16 data i (ds_DVLength d);
     let i = i + 2;
     data \<leftarrow> copy_bytes data i (i + unat (ds_DVLength d)) (ds_DVValue d);
     let i = i + unat (ds_DVLength d);
     data \<leftarrow> put8 data i (ds_SCPType d);
     let i = i + 1;
     data \<leftarrow> PutUint16 data i (ds_SCPLength d);
     let i = i + 2;
     data \<leftarrow> copy_bytes data i (i + unat (ds_SCPLength d)) (ds_SCPValue d);
     let i = i + unat (ds_SCPLength d);
     data \<leftarrow> put8 data i (ds_PadType d);
     let i = i + 1;
     data \<leftarrow> PutUint16 data i (ds_PadLength d);
     let i = i + 2;
     data \<leftarrow> copy_bytes data i (i + unat (ds_PadLength d)) (ds_PadValue d);
     Some data
   }"
definition DiscoveryHello_Len :: "DiscoveryHello \<Rightarrow> nat" where
  "DiscoveryHello_Len d = (2) + (3) + unat (dh_Length d) + (unat (dh_PadLength d) + 3)"

definition DiscoveryHello_SerializeTo :: "DiscoveryHello \<Rightarrow> bytes option" where
  "DiscoveryHello_SerializeTo d = do {
     let plen = DiscoveryHello_Len d;
     let data = make_bytes plen;
     let i = 0;
     data \<leftarrow> put8 data i (dh_Opcode d);
     let i = i + 1;
     data \<leftarrow> put8 data i (dh_DiscoveryType d);
     let i = i + 1;
     data \<leftarrow> put8 data i (dh_VendorType d);
     let i = i + 1;
     data \<leftarrow> PutUint16 data i (dh_Length d);
     let i = i + 2;
     data \<leftarrow> put8 data i (dh_VendorIDType d);
     let i = i + 1;
     data \<leftarrow> PutUint16 data i (dh_VendorIDLength d);
     let i = i + 2;
     data \<leftarrow> copy_bytes data i (i + unat (dh_VendorIDLength d)) (dh_VendorID d);
     let i = i + unat (dh_VendorIDLength d);
     data \<leftarrow> put8 data i (dh_NWType d);
     let i = i + 1;
     data \<leftarrow> PutUint16 data i (dh_NWLength d);
     let i = i + 2;
     data \<leftarrow> copy_bytes data i (i + unat (dh_NWLength d)) (dh_NWValue d);
     let i = i + unat (dh_NWLength d);
     data \<leftarrow> put8 data i (dh_DVType d);
     let i = i + 1;
     data \<leftarrow> PutUint16 data i (dh_DVLength d);
     let i = i + 2;
     data \<leftarrow> copy_bytes data i (i + unat (dh_DVLength d)) (dh_DVValue d);
     let i = i + unat (dh_DVLength d);
     data \<leftarrow> put8 data i (dh_SCPType d);
     let i = i + 1;
     data \<leftarrow> PutUint16 data i (dh_SCPLength d);
     let i = i + 2;
     data \<leftarrow> copy_bytes data i (i + unat (dh_SCPLength d)) (dh_SCPValue d);
     let i = i + unat (dh_SCPLength d);
     data \<leftarrow> put8 data i (dh_TunnelType d);
     let i = i + 1;
     data \<leftarrow> PutUint16 data i (dh_TunnelLength d);
     let i = i + 2;
     data \<leftarrow> copy_bytes data i (i + unat (dh_TunnelLength d)) (dh_TunnelValue d);
     let i = i + unat (dh_TunnelLength d);
     data \<leftarrow> put8 data i (dh_PadType d);
     let i = i + 1;
     data \<leftarrow> PutUint16 data i (dh_PadLength d);
     let i = i + 2;
     data \<leftarrow> copy_bytes data i (i + unat (dh_PadLength d)) (dh_PadValue d);
     Some data
   }"
text \<open>
  \<open>Decode\<close> assigns every field of its receiver from the bytes, so its result does not
  depend on what the receiver held; a read past the input panics.
\<close>

definition DiscoverySolicit_Decode :: "bytes \<Rightarrow> DiscoverySolicit option" where
  "DiscoverySolicit_Decode data = do {
     let i = 0;
     Opcode \<leftarrow> get8 data i;
     let i = i + 1;
     DiscoveryType \<leftarrow> get8 data i;
     let i = i + 1;
     VendorType \<leftarrow> get8 data i;
     let i = i + 1;
     Length \<leftarrow> Uint16 data i;
     let i = i + 2;
     VendorIDType \<leftarrow> get8 data i;
     let i = i + 1;
     VendorIDLength \<leftarrow> Uint16 data i;
     let i = i + 2;
     VendorID \<leftarrow> slice data i (i + unat VendorIDLength);
     let i = i + unat VendorIDLength;
     CPType \<leftarrow> get8 data i;
     let i = i + 1;
     CPLength \<leftarrow> Uint16 data i;
     let i = i + 2;
     CPValue \<leftarrow> slice data i (i + unat CPLength);
     let i = i + unat CPLength;
     NWType \<leftarrow> get8 data i;
     let i = i + 1;
     NWLength \<leftarrow> Uint16 data i;
     let i = i + 2;
     NWValue \<leftarrow> slice data i (i + unat NWLength);
     let i = i + unat NWLength;
     DVType \<leftarrow> get8 data i;
     let i = i + 1;
     DVLength \<leftarrow> Uint16 data i;
     let i = i + 2;
     DVValue \<leftarrow> slice data i (i + unat DVLength);
     let i = i + unat DVLength;
     SCPType \<leftarrow> get8 data i;
     let i = i + 1;
     SCPLength \<leftarrow> Uint16 data i;
     let i = i + 2;
     SCPValue \<leftarrow> slice data i (i + unat SCPLength);
     let i = i + unat SCPLength;
     PadType \<leftarrow> get8 data i;
     let i = i + 1;
     PadLength \<leftarrow> Uint16 data i;
     let i = i + 2;
     PadValue \<leftarrow> slice data i (i + unat PadLength);
     Some \<lparr>ds_Opcode = Opcode,
            ds_DiscoveryType = DiscoveryType,
            ds_VendorType = VendorType,
            ds_Length = Length,
            ds_VendorIDType = VendorIDType,
            ds_VendorIDLength = VendorIDLength,
            ds_VendorID = VendorID,
            ds_CPType = CPType,
            ds_CPLength = CPLength,
            ds_CPValue = CPValue,
            ds_NWType = NWType,
            ds_NWLength = NWLength,
            ds_NWValue = NWValue,
            ds_DVType = DVType,
            ds_DVLength = DVLength,
            ds_DVValue = DVValue,
            ds_SCPType = SCPType,
            ds_SCPLength = SCPLength,
            ds_SCPValue = SCPValue,
            ds_PadType = PadType,
            ds_PadLength = PadLength,
            ds_PadValue = PadValue\<rparr>
   }"
definition DiscoveryHello_Decode :: "bytes \<Rightarrow> DiscoveryHello option" where
  "DiscoveryHello_Decode data = do {
     let i = 0;
     Opcode \<leftarrow> get8 data i;
     let i = i + 1;
     DiscoveryType \<leftarrow> get8 data i;
     let i = i + 1;
     VendorType \<leftarrow> get8 data i;
     let i = i + 1;
     Length \<leftarrow> Uint16 data i;
     let i = i + 2;
     VendorIDType \<leftarrow> get8 data i;
     let i = i + 1;
     VendorIDLength \<leftarrow> Uint16 data i;
     let i = i + 2;
     VendorID \<leftarrow> slice data i (i + unat VendorIDLength);
     let i = i + unat VendorIDLength;
     NWType \<leftarrow> get8 data i;
     let i = i + 1;
     NWLength \<leftarrow> Uint16 data i;
     let i = i + 2;
     NWValue \<leftarrow> slice data i (i + unat NWLength);
     let i = i + unat NWLength;
     DVType \<leftarrow> get8 data i;
     let i = i + 1;
     DVLength \<leftarrow> Uint16 data i;
     let i = i + 2;
     DVValue \<leftarrow> slice data i (i + unat DVLength);
     let i = i + unat DVLength;
     SCPType \<leftarrow> get8 data i;
     let i = i + 1;
     SCPLength \<leftarrow> Uint16 data i;
     let i = i + 2;
     SCPValue \<leftarrow> slice data i (i + unat SCPLength);
     let i = i + unat SCPLength;
     TunnelType \<leftarrow> get8 data i;
     let i = i + 1;
     TunnelLength \<leftarrow> Uint16 data i;
     let i = i + 2;
     TunnelValue \<leftarrow> slice data i (i + unat TunnelLength);
     let i = i + unat TunnelLength;
     PadType \<leftarrow> get8 data i;
     let i = i + 1;
     PadLength \<leftarrow> Uint16 data i;
     let i = i + 2;
     PadValue \<leftarrow> slice data i (i + unat PadLength);
     Some \<lparr>dh_Opcode = Opcode,
            dh_DiscoveryType = DiscoveryType,
            dh_VendorType = VendorType,
            dh_Length = Length,
            dh_VendorIDType = VendorIDType,
            dh_VendorIDLength = VendorIDLength,
            dh_VendorID = VendorID,
            dh_NWType = NWType,
            dh_NWLength = NWLength,
            dh_NWValue = NWValue,
            dh_DVType = DVType,
            dh_DVLength = DVLength,
            dh_DVValue = DVValue,
            dh_SCPType = SCPType,
            dh_SCPLength = SCPLength,
            dh_SCPValue = SCPValue,
            dh_TunnelType = TunnelType,
            dh_TunnelLength = TunnelLength,
            dh_TunnelValue = TunnelValue,
            dh_PadType = PadType,
            dh_PadLength = PadLength,
            dh_PadValue = PadValue\<rparr>
   }"
text \<open>
  The legal values of the specification: every length field is the byte count of what it
  declares.
\<close>

definition DiscoverySolicit_legal :: "DiscoverySolicit \<Rightarrow> bool" where
  "DiscoverySolicit_legal x \<longleftrightarrow>
     length (ds_VendorID x) = unat (ds_VendorIDLength x)
     \<and> length (ds_CPValue x) = unat (ds_CPLength x)
     \<and> length (ds_NWValue x) = unat (ds_NWLength x)
     \<and> length (ds_DVValue x) = unat (ds_DVLength x)
     \<and> length (ds_SCPValue x) = unat (ds_SCPLength x)
     \<and> length (ds_PadValue x) = unat (ds_PadLength x)
     \<and> unat (ds_Length x) =
       (3 + length (ds_VendorID x)) + (3 + length (ds_CPValue x)) + (3 + length (ds_NWValue x)) + (3 + length (ds_DVValue x)) + (3 + length (ds_SCPValue x))"

definition DiscoveryHello_legal :: "DiscoveryHello \<Rightarrow> bool" where
  "DiscoveryHello_legal x \<longleftrightarrow>
     length (dh_VendorID x) = unat (dh_VendorIDLength x)
     \<and> length (dh_NWValue x) = unat (dh_NWLength x)
     \<and> length (dh_DVValue x) = unat (dh_DVLength x)
     \<and> length (dh_SCPValue x) = unat (dh_SCPLength x)
     \<and> length (dh_TunnelValue x) = unat (dh_TunnelLength x)
     \<and> length (dh_PadValue x) = unat (dh_PadLength x)
     \<and> unat (dh_Length x) =
       (3 + length (dh_VendorID x)) + (3 + length (dh_NWValue x)) + (3 + length (dh_DVValue x)) + (3 + length (dh_SCPValue x)) + (3 + length (dh_TunnelValue x))"

subsection \<open>The codec of OAMPDU Information\<close>

text \<open>
  \<open>SerializeTo\<close>. The length byte of a TLV counts the type byte and itself too: the
  value goes to \<open>data[i+2 : i+Length]\<close>. A TLV whose length is 0 is not written.
\<close>

definition OAMPDUInformation_Len :: "OAMPDUInformation \<Rightarrow> nat" where
  "OAMPDUInformation_Len d =
     (1) + (3) + unat (oi_LILength d) + unat (oi_RILength d) + unat (oi_OSILength d)"

definition OAMPDUInformation_SerializeTo :: "OAMPDUInformation \<Rightarrow> bytes option" where
  "OAMPDUInformation_SerializeTo d = do {
     let plen = OAMPDUInformation_Len d;
     let data = make_bytes plen;
     let i = 0;
     data \<leftarrow> put8 data i (oi_Opcode d);
     let i = i + 1;
     data \<leftarrow> PutUint16 data i (oi_Flags d);
     let i = i + 2;
     data \<leftarrow> put8 data i (oi_Code d);
     let i = i + 1;
     (data, i) \<leftarrow>
       (if oi_LILength d \<noteq> 0
        then do {
          data \<leftarrow> put8 data i (oi_LIType d);
          data \<leftarrow> put8 data (i + 1) (oi_LILength d);
          data \<leftarrow> copy_bytes data (i + 2) (i + unat (oi_LILength d)) (oi_LIValue d);
          Some (data, i + unat (oi_LILength d)) }
        else Some (data, i));
     (data, i) \<leftarrow>
       (if oi_RILength d \<noteq> 0
        then do {
          data \<leftarrow> put8 data i (oi_RIType d);
          data \<leftarrow> put8 data (i + 1) (oi_RILength d);
          data \<leftarrow> copy_bytes data (i + 2) (i + unat (oi_RILength d)) (oi_RIValue d);
          Some (data, i + unat (oi_RILength d)) }
        else Some (data, i));
     data \<leftarrow>
       (if oi_OSILength d \<noteq> 0
        then do {
          data \<leftarrow> put8 data i (oi_OSIType d);
          data \<leftarrow> put8 data (i + 1) (oi_OSILength d);
          copy_bytes data (i + 2) (i + unat (oi_OSILength d)) (oi_OSIValue d) }
        else Some data);
     Some data
   }"

text \<open>
  \<open>Decode\<close> changes its receiver: a TLV that the bytes do not hold leaves the three
  fields of that TLV as they were. The loop walks the TLVs until the input ends or a
  length byte is 0; a type other than 0x01, 0x02, 0xfe is the error it returns.
\<close>

datatype decode_error = tlvType_Error u8

definition OampduTlvTypeLocalInfo :: u8 where
  "OampduTlvTypeLocalInfo = 0x01"

definition OampduTlvTypeRemoteInfo :: u8 where
  "OampduTlvTypeRemoteInfo = 0x02"

definition OampduTlvTypeOrganizationSpecificInfo :: u8 where
  "OampduTlvTypeOrganizationSpecificInfo = 0xfe"

function OAMPDUInformation_Decode_loop ::
  "OAMPDUInformation \<Rightarrow> bytes \<Rightarrow> nat \<Rightarrow> (decode_error + OAMPDUInformation) option" where
  "OAMPDUInformation_Decode_loop d data i =
     (if length data \<le> i then Some (Inr d)
      else
        (case get8 data i of
           None \<Rightarrow> None
         | Some tlvType \<Rightarrow>
        (case get8 data (i + 1) of
           None \<Rightarrow> None
         | Some tlvLength \<Rightarrow>
             if tlvLength = 0 then Some (Inr d)
             else
               (case slice data (i + 2) (i + unat tlvLength) of
                  None \<Rightarrow> None
                | Some tlvValue \<Rightarrow>
                    if tlvType = OampduTlvTypeLocalInfo then
                      OAMPDUInformation_Decode_loop
                        (d\<lparr>oi_LIType := tlvType, oi_LILength := tlvLength, oi_LIValue := tlvValue\<rparr>)
                        data (i + unat tlvLength)
                    else if tlvType = OampduTlvTypeRemoteInfo then
                      OAMPDUInformation_Decode_loop
                        (d\<lparr>oi_RIType := tlvType, oi_RILength := tlvLength, oi_RIValue := tlvValue\<rparr>)
                        data (i + unat tlvLength)
                    else if tlvType = OampduTlvTypeOrganizationSpecificInfo then
                      OAMPDUInformation_Decode_loop
                        (d\<lparr>oi_OSIType := tlvType, oi_OSILength := tlvLength, oi_OSIValue := tlvValue\<rparr>)
                        data (i + unat tlvLength)
                    else Some (Inl (tlvType_Error tlvType))))))"
  by pat_completeness auto
termination
  by (relation "measure (\<lambda>(d, data, i). length data - i)")
     (auto simp: unat_gt_0 intro!: diff_less_mono2)

declare OAMPDUInformation_Decode_loop.simps [simp del]

definition OAMPDUInformation_Decode ::
  "OAMPDUInformation \<Rightarrow> bytes \<Rightarrow> (decode_error + OAMPDUInformation) option" where
  "OAMPDUInformation_Decode d data = do {
     let i = 0;
     Opcode \<leftarrow> get8 data i;
     let i = i + 1;
     Flags \<leftarrow> Uint16 data i;
     let i = i + 2;
     Code \<leftarrow> get8 data i;
     let i = i + 1;
     OAMPDUInformation_Decode_loop
       (d\<lparr>oi_Opcode := Opcode, oi_Flags := Flags, oi_Code := Code\<rparr>) data i
   }"

text \<open>The receiver \<open>&OAMPDUInformation{}\<close>: every field zero, every slice nil.\<close>

definition OAMPDUInformation_zero :: OAMPDUInformation where
  "OAMPDUInformation_zero =
     \<lparr>oi_Opcode = 0, oi_Flags = 0, oi_Code = 0,
      oi_LIType = 0, oi_LILength = 0, oi_LIValue = [],
      oi_RIType = 0, oi_RILength = 0, oi_RIValue = [],
      oi_OSIType = 0, oi_OSILength = 0, oi_OSIValue = []\<rparr>"

text \<open>
  The values that the code's own generators build (\<open>GeneateKeepAlive1\<close> to \<open>3\<close>): a
  TLV is either absent, with type 0, length 0 and no value, or carries its own type
  code and a length byte that is the byte count of its value plus 2.
\<close>

definition OAMPDUInformation_tlv_ok :: "u8 \<Rightarrow> u8 \<Rightarrow> u8 \<Rightarrow> bytes \<Rightarrow> bool" where
  "OAMPDUInformation_tlv_ok code t l v \<longleftrightarrow>
     (t = 0 \<and> l = 0 \<and> v = []) \<or> (t = code \<and> unat l = length v + 2)"

definition OAMPDUInformation_wellformed :: "OAMPDUInformation \<Rightarrow> bool" where
  "OAMPDUInformation_wellformed x \<longleftrightarrow>
     OAMPDUInformation_tlv_ok OampduTlvTypeLocalInfo (oi_LIType x) (oi_LILength x) (oi_LIValue x)
     \<and> OAMPDUInformation_tlv_ok OampduTlvTypeRemoteInfo (oi_RIType x) (oi_RILength x) (oi_RIValue x)
     \<and> OAMPDUInformation_tlv_ok OampduTlvTypeOrganizationSpecificInfo
          (oi_OSIType x) (oi_OSILength x) (oi_OSIValue x)"

text \<open>
  Proof devices, not part of the program: the byte strings that the three serializers
  are shown to produce for the values above.
\<close>

definition DiscoverySolicit_bytes :: "DiscoverySolicit \<Rightarrow> bytes" where
  "DiscoverySolicit_bytes x =
     [ds_Opcode x, ds_DiscoveryType x, ds_VendorType x] @ be16 (ds_Length x)
     @ (ds_VendorIDType x # be16 (ds_VendorIDLength x) @ ds_VendorID x)
     @ (ds_CPType x # be16 (ds_CPLength x) @ ds_CPValue x)
     @ (ds_NWType x # be16 (ds_NWLength x) @ ds_NWValue x)
     @ (ds_DVType x # be16 (ds_DVLength x) @ ds_DVValue x)
     @ (ds_SCPType x # be16 (ds_SCPLength x) @ ds_SCPValue x)
     @ (ds_PadType x # be16 (ds_PadLength x) @ ds_PadValue x)"

definition DiscoveryHello_bytes :: "DiscoveryHello \<Rightarrow> bytes" where
  "DiscoveryHello_bytes x =
     [dh_Opcode x, dh_DiscoveryType x, dh_VendorType x] @ be16 (dh_Length x)
     @ (dh_VendorIDType x # be16 (dh_VendorIDLength x) @ dh_VendorID x)
     @ (dh_NWType x # be16 (dh_NWLength x) @ dh_NWValue x)
     @ (dh_DVType x # be16 (dh_DVLength x) @ dh_DVValue x)
     @ (dh_SCPType x # be16 (dh_SCPLength x) @ dh_SCPValue x)
     @ (dh_TunnelType x # be16 (dh_TunnelLength x) @ dh_TunnelValue x)
     @ (dh_PadType x # be16 (dh_PadLength x) @ dh_PadValue x)"

definition OAMPDUInformation_tlv_bytes :: "u8 \<Rightarrow> u8 \<Rightarrow> bytes \<Rightarrow> bytes" where
  "OAMPDUInformation_tlv_bytes t l v = (if l = 0 then [] else t # l # v)"

definition OAMPDUInformation_bytes :: "OAMPDUInformation \<Rightarrow> bytes" where
  "OAMPDUInformation_bytes x =
     (oi_Opcode x # be16 (oi_Flags x) @ [oi_Code x])
     @ OAMPDUInformation_tlv_bytes (oi_LIType x) (oi_LILength x) (oi_LIValue x)
     @ OAMPDUInformation_tlv_bytes (oi_RIType x) (oi_RILength x) (oi_RIValue x)
     @ OAMPDUInformation_tlv_bytes (oi_OSIType x) (oi_OSILength x) (oi_OSIValue x)"

subsection \<open>The add-flow-to-device sequence\<close>

record TomiObjectContext =
  oc_Branch :: u8
  oc_Type :: u16
  oc_Length :: u8
  oc_Instance :: u32

record L2oamCmd =
  cmd_Type :: string
  cmd_Cir :: bytes
  cmd_Pir :: bytes
  cmd_Tpid :: bytes
  cmd_Vid :: bytes
  cmd_Itpid :: bytes
  cmd_Ivid :: bytes
  cmd_OnuDeviceID :: string

text \<open>
  The requests that the sequence hands to \<open>device.send\<close>, each named by the generator
  call that builds it, with the arguments of the call.
\<close>

datatype tomi_request =
    GenerateGenericActionCreateDs
  | GenerateL2switchingDomainActionLnletEntryDs TomiObjectContext bytes bytes
  | GenerateSetDefaultOutlet TomiObjectContext TomiObjectContext
  | GenerateL2switchingDomainActionLnletEntryUs TomiObjectContext bytes bytes TomiObjectContext

text \<open>
  Modelled from the spec: the device registry and the request/response channel, whose
  file (\<open>l2oam_device.go\<close>: the interface \<open>L2oamDevice\<close>, its implementations
  \<open>L2oamOltDevice\<close> and \<open>L2oamOnuDevice\<close>, \<open>FindL2oamDeviceByDeviceID\<close>, \<open>send\<close>,
  \<open>waitResponse\<close> and the accessors) is not part of the sources at hand. The
  specification describes the registry as a mapping keyed by the opaque device ID whose
  records carry the flow-installed flag, the current L2-switching-domain object context
  and the most recently applied flow parameters, and the channel as: the request is
  transmitted, and the sequencer waits at most \<open>ResponseTimer\<close> for the next frame routed
  to the device; it gets that frame, or a \<open>Timeout\<close> error.

  A device record is held by reference: what the sequencer changes in a device it has
  looked up is changed in the registry, so the record is written back under the key it
  was found at (\<open>updateMap\<close>). \<open>dev_kind\<close> is the dynamic type of the interface value,
  which the type assertions \<open>olt.(*L2oamOltDevice)\<close> and \<open>onu.(*L2oamOnuDevice)\<close> test.
\<close>

datatype device_kind = OltDevice | OnuDevice

record L2oamDevice =
  dev_kind :: device_kind
  dev_FlowAdded :: bool
  dev_ObjectContext :: "TomiObjectContext option"
  dev_L2oamCmd :: "L2oamCmd option"

text \<open>
  What happens to a frame handed to \<open>send\<close>: \<open>send\<close> returns an error, or the frame
  goes out and no response arrives within \<open>ResponseTimer\<close>, or the response arrives.
\<close>

datatype exchange = SendFails | NoResponse | Response Ethernet

datatype wait_error = Timeout

text \<open>
  The state of the adapter that the sequence reads and writes: the registry, the package
  variable \<open>flowVersion\<close>, the requests handed to \<open>send\<close> so far (with the ID of the
  device they were sent through), and the behaviour of the network: \<open>channel\<close> gives the
  fate of the first, second, ... frame handed to \<open>send\<close> from now on; beyond the end of
  the list no response arrives.
\<close>

record adapter =
  deviceMap :: "string \<rightharpoonup> L2oamDevice"
  flowVersion :: int
  requests :: "(string \<times> tomi_request) list"
  channel :: "exchange list"

definition flowVersion_init :: int where
  "flowVersion_init = 3"

definition FindL2oamDeviceByDeviceID :: "adapter \<Rightarrow> string \<Rightarrow> L2oamDevice option" where
  "FindL2oamDeviceByDeviceID w deviceID = deviceMap w deviceID"

definition updateMap :: "string \<Rightarrow> L2oamDevice \<Rightarrow> adapter \<Rightarrow> adapter" where
  "updateMap deviceID dev w = w\<lparr>deviceMap := (deviceMap w)(deviceID \<mapsto> dev)\<rparr>"

text \<open>\<open>device.send(request)\<close>: the result is whether an error is returned.\<close>

definition device_send :: "string \<Rightarrow> tomi_request \<Rightarrow> adapter \<Rightarrow> bool \<times> adapter" where
  "device_send device request w =
     (case channel w of
        SendFails # rest \<Rightarrow>
          (True, w\<lparr>requests := requests w @ [(device, request)], channel := rest\<rparr>)
      | _ \<Rightarrow> (False, w\<lparr>requests := requests w @ [(device, request)]\<rparr>))"

text \<open>\<open>device.waitResponse(ResponseTimer)\<close>, called after a \<open>send\<close> that went out.\<close>

definition device_waitResponse :: "string \<Rightarrow> adapter \<Rightarrow> (wait_error + Ethernet) \<times> adapter" where
  "device_waitResponse device w =
     (case channel w of
        Response ether # rest \<Rightarrow> (Inr ether, w\<lparr>channel := rest\<rparr>)
      | _ \<Rightarrow> (Inl Timeout, w\<lparr>channel := tl (channel w)\<rparr>))"

definition Uint32 :: "bytes \<Rightarrow> nat \<Rightarrow> u32 option" where
  "Uint32 data i =
     (case slice data i (i + 4) of
        Some [b0, b1, b2, b3] \<Rightarrow>
          Some (push_bit 24 (ucast b0) OR push_bit 16 (ucast b1) OR push_bit 8 (ucast b2) OR ucast b3)
      | _ \<Rightarrow> None)"

text \<open>
  The errors of the sequence: \<open>fmt.Errorf("[%s] f() Send Error: %v", ...)\<close> with the name
  \<open>f\<close> that the message prints and the error of \<open>waitResponse\<close>, and
  \<open>errors.New("failed-to-add-flow-to-device-for-down-stream")\<close>. The context argument
  and the log lines are left out.
\<close>

datatype flow_error =
    Send_Error string wait_error
  | failed_to_add_flow_to_device_for_down_stream

text \<open>
  \<open>sendSetGenericActionCreateForDS\<close> returns the object context that the response
  carries in bytes 29 to 36 of its payload, and panics on a shorter payload.
\<close>

definition sendSetGenericActionCreateForDS ::
  "string \<Rightarrow> adapter \<Rightarrow> ((TomiObjectContext option \<times> flow_error option) \<times> adapter) option" where
  "sendSetGenericActionCreateForDS device w =
     (case device_send device GenerateGenericActionCreateDs w of
        (True, w) \<Rightarrow> Some ((None, None), w)
      | (False, w) \<Rightarrow>
          (case device_waitResponse device w of
             (Inl err, w) \<Rightarrow>
               Some ((None, Some (Send_Error ''sendSetGenericActionCreateForDS'' err)), w)
           | (Inr ether, w) \<Rightarrow> do {
               let i = 29;
               Branch \<leftarrow> get8 (Payload ether) i;
               let i = i + 1;
               Type \<leftarrow> Uint16 (Payload ether) i;
               let i = i + 2;
               Length \<leftarrow> get8 (Payload ether) i;
               let i = i + 1;
               Instance \<leftarrow> Uint32 (Payload ether) i;
               Some ((Some \<lparr>oc_Branch = Branch, oc_Type = Type, oc_Length = Length,
                             oc_Instance = Instance\<rparr>, None), w)
             }))"

definition sendSetL2SwitchingDomainForDS ::
  "string \<Rightarrow> TomiObjectContext \<Rightarrow> bytes \<Rightarrow> bytes \<Rightarrow> adapter \<Rightarrow> flow_error option \<times> adapter" where
  "sendSetL2SwitchingDomainForDS device oc tpid vid w =
     (case device_send device (GenerateL2switchingDomainActionLnletEntryDs oc tpid vid) w of
        (True, w) \<Rightarrow> (None, w)
      | (False, w) \<Rightarrow>
          (case device_waitResponse device w of
             (Inl err, w) \<Rightarrow> (Some (Send_Error ''sendSetL2SwitchingDomain'' err), w)
           | (Inr ether, w) \<Rightarrow> (None, w)))"

definition sendSetDefaultOutlet ::
  "string \<Rightarrow> TomiObjectContext \<Rightarrow> TomiObjectContext \<Rightarrow> adapter \<Rightarrow> flow_error option \<times> adapter" where
  "sendSetDefaultOutlet device oc onuID w =
     (case device_send device (GenerateSetDefaultOutlet oc onuID) w of
        (True, w) \<Rightarrow> (None, w)
      | (False, w) \<Rightarrow>
          (case device_waitResponse device w of
             (Inl err, w) \<Rightarrow> (Some (Send_Error ''sendSetDefaultOutlet'' err), w)
           | (Inr ether, w) \<Rightarrow> (None, w)))"

definition sendSetL2SwitchingDomainForUS ::
  "string \<Rightarrow> TomiObjectContext \<Rightarrow> bytes \<Rightarrow> bytes \<Rightarrow> TomiObjectContext \<Rightarrow> adapter
   \<Rightarrow> flow_error option \<times> adapter" where
  "sendSetL2SwitchingDomainForUS device oc tpid vid onuID w =
     (case device_send device (GenerateL2switchingDomainActionLnletEntryUs oc tpid vid onuID) w of
        (True, w) \<Rightarrow> (None, w)
      | (False, w) \<Rightarrow>
          (case device_waitResponse device w of
             (Inl err, w) \<Rightarrow> (Some (Send_Error ''sendSetL2SwitchingDomainForUS'' err), w)
           | (Inr ether, w) \<Rightarrow> (None, w)))"

text \<open>
  The two sequences of \<open>flowVersion == 1\<close>. A device that is not found is only logged,
  and the call of \<open>send\<close> on the nil interface value that follows panics.
\<close>

definition L2oamAddFlowToDeviceDS ::
  "string \<Rightarrow> L2oamCmd \<Rightarrow> adapter \<Rightarrow> (TomiObjectContext option \<times> adapter) option" where
  "L2oamAddFlowToDeviceDS dh_device_Id cmd w =
     (case FindL2oamDeviceByDeviceID w dh_device_Id of
        None \<Rightarrow> None
      | Some olt \<Rightarrow> do {
          ((oc, err01), w) \<leftarrow> sendSetGenericActionCreateForDS dh_device_Id w;
          let w = (case oc of
                     Some oc' \<Rightarrow>
                       (let onuID = \<lparr>oc_Branch = 0x0c, oc_Type = 0x0011, oc_Length = 4,
                                     oc_Instance = 0x00000001\<rparr>;
                            (err02, w) = sendSetL2SwitchingDomainForDS dh_device_Id oc'
                                           (cmd_Tpid cmd) (cmd_Vid cmd) w;
                            (err03, w) = sendSetDefaultOutlet dh_device_Id oc' onuID w
                        in w)
                   | None \<Rightarrow> w);
          let olt = olt\<lparr>dev_L2oamCmd := Some cmd\<rparr>;
          let olt = olt\<lparr>dev_ObjectContext := oc\<rparr>;
          let w = updateMap dh_device_Id olt w;
          Some (oc, w)
        })"

definition L2oamAddFlowToDeviceUS ::
  "string \<Rightarrow> TomiObjectContext \<Rightarrow> L2oamCmd \<Rightarrow> adapter \<Rightarrow> adapter option" where
  "L2oamAddFlowToDeviceUS dh_device_Id oc cmd w =
     (case FindL2oamDeviceByDeviceID w dh_device_Id of
        None \<Rightarrow> None
      | Some olt \<Rightarrow>
          (let onuID = \<lparr>oc_Branch = 0x0c, oc_Type = 0x0011, oc_Length = 4,
                        oc_Instance = 0x00000002\<rparr>;
               (err01, w) = sendSetL2SwitchingDomainForUS dh_device_Id oc
                              (cmd_Tpid cmd) (cmd_Vid cmd) onuID w
           in Some w))"

text \<open>
  \<open>L2oamAddFlowToDevice\<close>. The result is the error returned (\<open>None\<close> for \<open>nil\<close>) and the
  new state. On a later call \<open>cmd\<close> is replaced by the command stored in the OLT record;
  were that nil, reading \<open>cmd.Tpid\<close> would panic.
\<close>

definition L2oamAddFlowToDevice ::
  "string \<Rightarrow> L2oamCmd \<Rightarrow> adapter \<Rightarrow> (flow_error option \<times> adapter) option" where
  "L2oamAddFlowToDevice dh_device_Id cmd w =
     (if flowVersion w = 1 then do {
        (oc, w) \<leftarrow> L2oamAddFlowToDeviceDS dh_device_Id cmd w;
        case oc of
          None \<Rightarrow> Some (Some failed_to_add_flow_to_device_for_down_stream, w)
        | Some oc \<Rightarrow> do {
            w \<leftarrow> L2oamAddFlowToDeviceUS dh_device_Id oc cmd w;
            Some (None, w)
          }
      }
      else if flowVersion w > 1 then
        (case FindL2oamDeviceByDeviceID w dh_device_Id of
           None \<Rightarrow> Some (None, w)
         | Some olt \<Rightarrow> do {
             let oc = dev_ObjectContext olt;
             let onuDeviceID = cmd_OnuDeviceID cmd;
             first \<leftarrow>
               (case oc of
                  None \<Rightarrow> do {
                    ((oc, err01), w) \<leftarrow> sendSetGenericActionCreateForDS dh_device_Id w;
                    case oc of
                      None \<Rightarrow> Some (Inl (failed_to_add_flow_to_device_for_down_stream, w))
                    | Some oc \<Rightarrow> do {
                        let (err02, w) = sendSetL2SwitchingDomainForDS dh_device_Id oc
                                           (cmd_Tpid cmd) (cmd_Vid cmd) w;
                        let olt = olt\<lparr>dev_L2oamCmd := Some cmd\<rparr>;
                        let olt = olt\<lparr>dev_ObjectContext := Some oc\<rparr>;
                        let olt = (if dev_kind olt = OltDevice
                                   then olt\<lparr>dev_FlowAdded := True\<rparr> else olt);
                        let w = updateMap dh_device_Id olt w;
                        Some (Inr (oc, Some cmd, w))
                      }
                  }
                | Some oc \<Rightarrow> Some (Inr (oc, dev_L2oamCmd olt, w)));
             case first of
               Inl (err, w) \<Rightarrow> Some (Some err, w)
             | Inr (oc, cmd, w) \<Rightarrow>
                 (case FindL2oamDeviceByDeviceID w onuDeviceID of
                    None \<Rightarrow> Some (None, w)
                  | Some onu \<Rightarrow>
                      (case dev_ObjectContext onu of
                         None \<Rightarrow> Some (None, w)
                       | Some onuID \<Rightarrow> do {
                           let (err03, w) = sendSetDefaultOutlet dh_device_Id oc onuID w;
                           cmd \<leftarrow> cmd;
                           let (err04, w) = sendSetL2SwitchingDomainForUS dh_device_Id oc
                                              (cmd_Tpid cmd) (cmd_Vid cmd) onuID w;
                           if dev_kind onu = OnuDevice
                           then Some (None, updateMap onuDeviceID (onu\<lparr>dev_FlowAdded := True\<rparr>) w)
                           else Some (None, w)
                         }))
           })
      else Some (None, w))"

section \<open>Properties\<close>

subsection \<open>The ledger lookup by device ID\<close>

lemma GetOnuFromDeviceID_loop_skip:
  "\<forall>s\<in>set pre. ID s = id' \<Longrightarrow>
   GetOnuFromDeviceID_loop (pre @ rest) id' = GetOnuFromDeviceID_loop rest id'"
  by (induction pre) simp_all

lemma GetOnuFromDeviceID_loop_all_match:
  "\<forall>s\<in>set l. ID s = id' \<Longrightarrow> GetOnuFromDeviceID_loop l id' = None"
  by (induction l) simp_all

text \<open>
  Claim C9. \<open>GetOnuFromDeviceID id\<close> returns the first record of the ledger whose ID
  differs from \<open>id\<close> (every record before it has the ID \<open>id\<close>), and returns nil when the
  file is absent, when the list is nil or empty, and when every record has the ID \<open>id\<close>.
\<close>

theorem GetOnuFromDeviceID_first_other_id:
  "(\<forall>pre r post. (\<forall>s\<in>set pre. ID s = id') \<and> ID r \<noteq> id' \<longrightarrow>
       GetOnuFromDeviceID (Document (Some (pre @ r # post))) id' = Inr (Some r))
   \<and> GetOnuFromDeviceID NotExist id' = Inr None
   \<and> GetOnuFromDeviceID (Document None) id' = Inr None
   \<and> GetOnuFromDeviceID (Document (Some [])) id' = Inr None
   \<and> (\<forall>l. (\<forall>s\<in>set l. ID s = id') \<longrightarrow> GetOnuFromDeviceID (Document (Some l)) id' = Inr None)"
  by (simp add: GetOnuFromDeviceID_def GetOnuFromDeviceID_loop_skip
      GetOnuFromDeviceID_loop_all_match)

theorem GetOnuFromDeviceID_first_other_id_witness:
  "GetOnuFromDeviceID (Document (Some
      ([\<lparr>ID = ''onu-1'', AdminState = ''up'', OpeState = ''up'', ConnectState = ''up'',
          MacAddress = ''000000000001'', RebootState = []\<rparr>]
       @ \<lparr>ID = ''onu-2'', AdminState = ''up'', OpeState = ''up'', ConnectState = ''up'',
          MacAddress = ''000000000002'', RebootState = []\<rparr> # []))) ''onu-1''
   = Inr (Some \<lparr>ID = ''onu-2'', AdminState = ''up'', OpeState = ''up'', ConnectState = ''up'',
          MacAddress = ''000000000002'', RebootState = []\<rparr>)"
proof -
  let ?a = "\<lparr>ID = ''onu-1'', AdminState = ''up'', OpeState = ''up'', ConnectState = ''up'',
          MacAddress = ''000000000001'', RebootState = []\<rparr>"
  let ?b = "\<lparr>ID = ''onu-2'', AdminState = ''up'', OpeState = ''up'', ConnectState = ''up'',
          MacAddress = ''000000000002'', RebootState = []\<rparr>"
  have "(\<forall>s\<in>set [?a]. ID s = ''onu-1'') \<and> ID ?b \<noteq> ''onu-1''"
    by simp
  with GetOnuFromDeviceID_first_other_id [of "''onu-1''"]
  show ?thesis by blast
qed

subsection \<open>The correlation-tag allocator\<close>












subsection \<open>Writing into a zeroed buffer\<close>

lemma make_bytes_zero_padded: "make_bytes n = zero_padded [] n"
  by (simp add: make_bytes_def zero_padded_def)

lemma put8_zero_padded:
  "\<lbrakk>i = length pre; i < n\<rbrakk> \<Longrightarrow> put8 (zero_padded pre n) i v = Some (zero_padded (pre @ [v]) n)"
proof -
  assume i: "i = length pre" and n: "i < n"
  then obtain k where k: "n - length pre = Suc k" "n - Suc (length pre) = k"
    by (cases "n - length pre") auto
  with i n show ?thesis
    by (simp add: put8_def zero_padded_def list_update_append)
qed

text \<open>A \<open>copy\<close> into \<open>data[lo:hi]\<close> fills the slot with the source, cut or zero-padded to fit.\<close>

lemma copy_bytes_zero_padded:
  "\<lbrakk>lo = length pre; lo \<le> hi; hi \<le> n\<rbrakk> \<Longrightarrow>
   copy_bytes (zero_padded pre n) lo hi src =
     Some (zero_padded (pre @ take (hi - lo) src @ replicate (hi - lo - length src) 0) n)"
  by (auto simp: copy_bytes_def zero_padded_def min_def simp flip: replicate_add
      intro!: arg_cong [where f = "\<lambda>k. replicate k (0::u8)"])

lemma length_be16 [simp]: "length (be16 v) = 2"
  by (simp add: be16_def)

lemma length_be32 [simp]: "length (be32 v) = 4"
  by (simp add: be32_def)

lemma PutUint16_zero_padded:
  "\<lbrakk>i = length pre; i + 2 \<le> n\<rbrakk> \<Longrightarrow>
   PutUint16 (zero_padded pre n) i v = Some (zero_padded (pre @ be16 v) n)"
  by (simp add: PutUint16_def copy_bytes_zero_padded)

lemma PutUint32_zero_padded:
  "\<lbrakk>i = length pre; i + 4 \<le> n\<rbrakk> \<Longrightarrow>
   PutUint32 (zero_padded pre n) i v = Some (zero_padded (pre @ be32 v) n)"
  by (simp add: PutUint32_def copy_bytes_zero_padded)

lemmas zero_padded_writes = make_bytes_zero_padded put8_zero_padded copy_bytes_zero_padded
  PutUint16_zero_padded PutUint32_zero_padded

subsection \<open>The Get-Vendor-Name request on the wire\<close>

lemma be_constants:
  "be16 0x0050 = [0x00, 0x50]" "be16 0x0c7a = [0x0c, 0x7a]" "be16 0x0dce = [0x0d, 0xce]"
  "be16 0x0009 = [0x00, 0x09]" "be32 0 = [0, 0, 0, 0]"
  by (simp_all add: be16_def be32_def)

lemma GetVendorName_bytes:
  "TOAMGetRequest_SerializeTo (fst (GnerateGetVendorName s)) =
     Some ([0x03, 0x00, 0x50, 0xfe, 0x2a, 0xea, 0x15, 0x01, 0x0c, 0x0c, 0x7a, 0x04]
           @ be32 (s + 1)
           @ [0x0c, 0x0d, 0xce, 0x04, 0x00, 0x00, 0x00, 0x00, 0xde, 0x00, 0x09, 0x00, 0x00])"
  by (simp add: TOAMGetRequest_SerializeTo_def GnerateGetVendorName_def getOltInstance_def
      Let_def TOAMGetRequest_Len_def zero_padded_writes)
     (simp add: zero_padded_def be_constants)

text \<open>
  Claim C3, as stated, fails: the correlation tag takes 8 bytes (branch, type, length and
  a 32-bit instance), not 9, so the Vd triple starts at byte 24. Bytes 25 to 27 of the
  first request of a process are \<open>00 09 00\<close>, not \<open>de 00 09\<close>.
\<close>

theorem GetVendorName_Vd_offset_counterexample:
  "map_option (\<lambda>bs. take 3 (drop 25 bs))
     (TOAMGetRequest_SerializeTo (fst (GnerateGetVendorName instance_init)))
   = Some [0x00, 0x09, 0x00]"
  by (simp add: TOAMGetRequest_SerializeTo_def GnerateGetVendorName_def getOltInstance_def
      Let_def TOAMGetRequest_Len_def zero_padded_writes)
     (simp add: zero_padded_def be_constants)

text \<open>
  Claim C3, amended. Whatever the counter holds, encoding the generated Get-Vendor-Name
  request succeeds and yields exactly 29 bytes: \<open>03 00 50 fe\<close> at bytes 0 to 3, the OUI
  \<open>2a ea 15\<close> at 4 to 6, the TOMI opcode \<open>01\<close> at 7, the correlation-tag instance
  (big-endian) at 12 to 15, the Vd triple \<open>de 00 09\<close> at 24 to 26, the end byte \<open>00\<close>
  at 27, and one more zero byte, which no field writes, at 28.
\<close>

theorem GetVendorName_layout:
  "\<exists>bs. TOAMGetRequest_SerializeTo (fst (GnerateGetVendorName s)) = Some bs
     \<and> length bs = 29
     \<and> take 4 bs = [0x03, 0x00, 0x50, 0xfe]
     \<and> take 3 (drop 4 bs) = [0x2a, 0xea, 0x15]
     \<and> bs ! 7 = 0x01
     \<and> take 4 (drop 12 bs) = be32 (s + 1)
     \<and> take 3 (drop 24 bs) = [0xde, 0x00, 0x09]
     \<and> bs ! 27 = 0x00
     \<and> bs ! 28 = 0x00"
  by (simp add: GetVendorName_bytes nth_append)

subsection \<open>TPID/VID entries\<close>

lemma put8_at_cursor:
  "i = length done \<Longrightarrow> put8 (done @ x # rest) i v = Some (done @ v # rest)"
  by (simp add: put8_def)

text \<open>Over old content: the bytes of the slot that the source does not reach stay.\<close>

lemma copy_bytes_at_cursor:
  "\<lbrakk>lo = length done; hi = lo + length old\<rbrakk> \<Longrightarrow>
   copy_bytes (done @ old @ rest) lo hi src =
     Some (done @ (take (length old) src @ drop (length src) old) @ rest)"
  by (simp add: copy_bytes_def min_def)

lemma split_buffer:
  assumes "start + n \<le> length (data :: bytes)"
  shows "\<exists>mid. data = take start data @ mid @ drop (start + n) data \<and> length mid = n"
proof -
  have "data = take start data @ take n (drop start data) @ drop n (drop start data)"
    by (simp only: append_take_drop_id)
  moreover have "length (take n (drop start data)) = n" using assms by simp
  ultimately show ?thesis by (metis add.commute drop_drop)
qed

lemma split_list_length:
  "length (xs :: bytes) = a + b \<Longrightarrow> \<exists>ys zs. xs = ys @ zs \<and> length ys = a \<and> length zs = b"
  by (rule exI [of _ "take a xs"], rule exI [of _ "drop a xs"]) simp

text \<open>
  Claim C5. An entry written at \<open>startIndex\<close> into a buffer with room for it occupies
  the length byte, the TPID length byte, the TPID value bytes, the VID length byte and
  the VID value bytes, in this order, and nothing else changes. The TPID value takes no
  byte when the TPID length byte is 0x80 and exactly that many bytes otherwise (the first
  bytes of \<open>TpIDValue\<close> when it has that many); the same holds for the VID. The index
  returned is the one after the entry.
\<close>

theorem serializeTpidVid_emits:
  fixes tpidVid :: TpidVid and data :: bytes and startIndex :: nat
  defines "tp \<equiv> (if tv_TpIDLength tpidVid = 0x80 then 0 else unat (tv_TpIDLength tpidVid))"
  defines "vd \<equiv> (if tv_VIdLength tpidVid = 0x80 then 0 else unat (tv_VIdLength tpidVid))"
  assumes bound: "startIndex + 3 + tp + vd \<le> length data"
  shows "\<exists>tpid vid.
     serializeTpidVid tpidVid data startIndex =
       Some (take startIndex data
             @ [tv_Length tpidVid, tv_TpIDLength tpidVid] @ tpid
             @ [tv_VIdLength tpidVid] @ vid
             @ drop (startIndex + 3 + tp + vd) data,
             startIndex + 3 + tp + vd)
     \<and> length tpid = tp \<and> length vid = vd
     \<and> (tp \<le> length (tv_TpIDValue tpidVid) \<longrightarrow> tpid = take tp (tv_TpIDValue tpidVid))
     \<and> (vd \<le> length (tv_VIdValue tpidVid) \<longrightarrow> vid = take vd (tv_VIdValue tpidVid))"
proof -
  from split_buffer [of startIndex "3 + tp + vd" data] bound
  obtain mid where data: "data = take startIndex data @ mid @ drop (startIndex + 3 + tp + vd) data"
    and mid: "length mid = 3 + tp + vd"
    by (auto simp: add.assoc)
  define pre where "pre = take startIndex data"
  define post where "post = drop (startIndex + 3 + tp + vd) data"
  have lpre: "length pre = startIndex" using bound by (simp add: pre_def)
  from mid obtain x0 x1 m1 where m: "mid = x0 # x1 # m1" and m1: "length m1 = tp + (1 + vd)"
    by (cases mid; cases "tl mid") auto
  from split_list_length [OF m1] obtain o1 m2 where o1: "m1 = o1 @ m2" "length o1 = tp"
    and m2: "length m2 = 1 + vd" by blast
  from m2 obtain x2 o2 where o2: "m2 = x2 # o2" "length o2 = vd" by (cases m2) auto
  have d: "data = pre @ x0 # x1 # o1 @ x2 # o2 @ post"
    using data m o1 o2 by (simp add: pre_def post_def)
  let ?tpid = "if tv_TpIDLength tpidVid = 0x80 then []
               else take tp (tv_TpIDValue tpidVid) @ drop (length (tv_TpIDValue tpidVid)) o1"
  let ?vid = "if tv_VIdLength tpidVid = 0x80 then []
               else take vd (tv_VIdValue tpidVid) @ drop (length (tv_VIdValue tpidVid)) o2"
  have s1: "put8 (pre @ x0 # x1 # o1 @ x2 # o2 @ post) startIndex (tv_Length tpidVid)
      = Some (pre @ tv_Length tpidVid # x1 # o1 @ x2 # o2 @ post)"
    by (rule put8_at_cursor) (simp add: lpre)
  have s2: "put8 (pre @ tv_Length tpidVid # x1 # o1 @ x2 # o2 @ post) (startIndex + 1) (tv_TpIDLength tpidVid)
      = Some ((pre @ [tv_Length tpidVid, tv_TpIDLength tpidVid]) @ o1 @ x2 # o2 @ post)"
    using put8_at_cursor [of "startIndex + 1" "pre @ [tv_Length tpidVid]" x1 "o1 @ x2 # o2 @ post"]
    by (simp add: lpre)
  have s3: "tv_TpIDLength tpidVid \<noteq> 0x80 \<Longrightarrow>
      copy_bytes ((pre @ [tv_Length tpidVid, tv_TpIDLength tpidVid]) @ o1 @ x2 # o2 @ post)
         (startIndex + 1 + 1) (startIndex + 1 + 1 + unat (tv_TpIDLength tpidVid)) (tv_TpIDValue tpidVid)
      = Some ((pre @ [tv_Length tpidVid, tv_TpIDLength tpidVid]) @ ?tpid @ x2 # o2 @ post)"
    using copy_bytes_at_cursor [of "startIndex + 1 + 1" "pre @ [tv_Length tpidVid, tv_TpIDLength tpidVid]"
          "startIndex + 1 + 1 + unat (tv_TpIDLength tpidVid)" o1 "x2 # o2 @ post" "tv_TpIDValue tpidVid"]
    by (simp add: lpre o1 tp_def)
  have ltp: "length ?tpid = tp" using o1 by (auto simp: tp_def)
  have s4: "put8 ((pre @ [tv_Length tpidVid, tv_TpIDLength tpidVid]) @ ?tpid @ x2 # o2 @ post)
        (startIndex + 1 + 1 + tp) (tv_VIdLength tpidVid)
      = Some ((pre @ [tv_Length tpidVid, tv_TpIDLength tpidVid] @ ?tpid @ [tv_VIdLength tpidVid]) @ o2 @ post)"
    using put8_at_cursor [of "startIndex + 1 + 1 + tp" "pre @ [tv_Length tpidVid, tv_TpIDLength tpidVid] @ ?tpid"
        x2 "o2 @ post" "tv_VIdLength tpidVid"] ltp
    by (simp add: lpre)
  have s5: "tv_VIdLength tpidVid \<noteq> 0x80 \<Longrightarrow>
      copy_bytes ((pre @ [tv_Length tpidVid, tv_TpIDLength tpidVid] @ ?tpid @ [tv_VIdLength tpidVid]) @ o2 @ post)
         (startIndex + 1 + 1 + tp + 1) (startIndex + 1 + 1 + tp + 1 + unat (tv_VIdLength tpidVid)) (tv_VIdValue tpidVid)
      = Some ((pre @ [tv_Length tpidVid, tv_TpIDLength tpidVid] @ ?tpid @ [tv_VIdLength tpidVid]) @ ?vid @ post)"
    using copy_bytes_at_cursor [of "startIndex + 1 + 1 + tp + 1"
          "pre @ [tv_Length tpidVid, tv_TpIDLength tpidVid] @ ?tpid @ [tv_VIdLength tpidVid]"
          "startIndex + 1 + 1 + tp + 1 + unat (tv_VIdLength tpidVid)" o2 post "tv_VIdValue tpidVid"] ltp
    by (simp add: lpre o2 vd_def)
  have lvd: "length ?vid = vd" using o2 by (auto simp: vd_def)
  have run: "serializeTpidVid tpidVid (pre @ x0 # x1 # o1 @ x2 # o2 @ post) startIndex =
       Some (pre @ [tv_Length tpidVid, tv_TpIDLength tpidVid] @ ?tpid
             @ [tv_VIdLength tpidVid] @ ?vid @ post, startIndex + 3 + tp + vd)"
  proof (cases "tv_TpIDLength tpidVid = 0x80")
    case True
    then have tp0: "tp = 0" by (simp add: tp_def)
    show ?thesis
    proof (cases "tv_VIdLength tpidVid = 0x80")
      case v: True
      then have "vd = 0" by (simp add: vd_def)
      with True v tp0 s1 s2 s4 o1(2) o2(2) show ?thesis
        by (simp add: serializeTpidVid_def Let_def)
    next
      case v: False
      then have "vd = unat (tv_VIdLength tpidVid)" by (simp add: vd_def)
      with True v tp0 s1 s2 s4 s5 o1(2) o2(2) show ?thesis
        by (simp add: serializeTpidVid_def Let_def)
    qed
  next
    case False
    then have tpn: "tp = unat (tv_TpIDLength tpidVid)" by (simp add: tp_def)
    show ?thesis
    proof (cases "tv_VIdLength tpidVid = 0x80")
      case v: True
      then have "vd = 0" by (simp add: vd_def)
      with False v tpn s1 s2 s3 s4 o1(2) o2(2) show ?thesis
        by (simp add: serializeTpidVid_def Let_def)
    next
      case v: False
      then have "vd = unat (tv_VIdLength tpidVid)" by (simp add: vd_def)
      with False v tpn s1 s2 s3 s4 s5 o1(2) o2(2) show ?thesis
        by (simp add: serializeTpidVid_def Let_def)
    qed
  qed
  have tpv: "tp \<le> length (tv_TpIDValue tpidVid) \<longrightarrow> ?tpid = take tp (tv_TpIDValue tpidVid)"
    using o1(2) by (auto simp: tp_def)
  have vdv: "vd \<le> length (tv_VIdValue tpidVid) \<longrightarrow> ?vid = take vd (tv_VIdValue tpidVid)"
    using o2(2) by (auto simp: vd_def)
  have fin: "serializeTpidVid tpidVid data startIndex =
       Some (pre @ [tv_Length tpidVid, tv_TpIDLength tpidVid] @ ?tpid
             @ [tv_VIdLength tpidVid] @ ?vid @ post, startIndex + 3 + tp + vd)"
    by (subst d) (rule run)
  show ?thesis
    apply (rule exI [of _ ?tpid], rule exI [of _ ?vid])
    using fin ltp lvd tpv vdv unfolding pre_def post_def
    apply (intro conjI)
    apply assumption+
    done
qed

theorem serializeTpidVid_emits_witness:
  "serializeTpidVid \<lparr>tv_Length = 5, tv_TpIDLength = 2, tv_TpIDValue = [0x88, 0xa8],
        tv_VIdLength = 128, tv_VIdValue = [0x00]\<rparr> [0, 0, 0, 0, 0, 0, 0, 0] 1
   = Some ([0x00, 0x05, 0x02, 0x88, 0xa8, 0x80, 0x00, 0x00], 6)"
  using serializeTpidVid_emits [where tpidVid = "\<lparr>tv_Length = 5, tv_TpIDLength = 2,
        tv_TpIDValue = [0x88, 0xa8], tv_VIdLength = 128, tv_VIdValue = [0x00]\<rparr>"
        and startIndex = 1 and data = "[0, 0, 0, 0, 0, 0, 0, 0]"]
  by auto

subsection \<open>Package variants\<close>

lemma get8_first_three:
  assumes "take 3 v = [a, b, c]"
  shows "get8 v 0 = Some a \<and> get8 v 1 = Some b \<and> get8 v 2 = Some c"
proof -
  from assms have "v = [a, b, c] @ drop 3 v"
    by (metis append_take_drop_id)
  then obtain rest where "v = a # b # c # rest" by simp
  then show ?thesis by (simp add: get8_def)
qed

text \<open>
  Claim C6. An OAMPDU Information whose OSI length is 7 and whose OSI value starts with
  \<open>00 10 00\<close> is package A and not package B; with \<open>90 82 60\<close> it is package B and
  not package A; with OSI length 0 it is both.
\<close>

theorem IsOnuPkg_variants:
  "(oi_OSILength d = 7 \<and> take 3 (oi_OSIValue d) = [0x00, 0x10, 0x00]
      \<longrightarrow> IsOnuPkgA d = Some True \<and> IsOnuPkgB d = Some False)
   \<and> (oi_OSILength d = 7 \<and> take 3 (oi_OSIValue d) = [0x90, 0x82, 0x60]
      \<longrightarrow> IsOnuPkgB d = Some True \<and> IsOnuPkgA d = Some False)
   \<and> (oi_OSILength d = 0 \<longrightarrow> IsOnuPkgA d = Some True \<and> IsOnuPkgB d = Some True)"
  by (auto simp: IsOnuPkgA_def IsOnuPkgB_def dest!: get8_first_three)

theorem IsOnuPkg_variants_witness:
  "IsOnuPkgA \<lparr>oi_Opcode = 0x03, oi_Flags = 0x0008, oi_Code = 0x00,
       oi_LIType = 0x01, oi_LILength = 16,
       oi_LIValue = [0x01, 0x00, 0x00, 0x00, 0x1b, 0x04, 0xb0, 0x2a, 0xea, 0x15, 0x00, 0x00, 0x00, 0x23],
       oi_RIType = 0, oi_RILength = 0, oi_RIValue = [],
       oi_OSIType = 0xfe, oi_OSILength = 7, oi_OSIValue = [0x00, 0x10, 0x00, 0x00, 0x23]\<rparr> = Some True
   \<and> IsOnuPkgB \<lparr>oi_Opcode = 0x03, oi_Flags = 0x0008, oi_Code = 0x00,
       oi_LIType = 0x01, oi_LILength = 16,
       oi_LIValue = [0x01, 0x00, 0x00, 0x00, 0x1b, 0x04, 0xb0, 0x2a, 0xea, 0x15, 0x00, 0x00, 0x00, 0x23],
       oi_RIType = 0, oi_RILength = 0, oi_RIValue = [],
       oi_OSIType = 0xfe, oi_OSILength = 7, oi_OSIValue = [0x00, 0x10, 0x00, 0x00, 0x23]\<rparr> = Some False"
  using IsOnuPkg_variants [of "\<lparr>oi_Opcode = 0x03, oi_Flags = 0x0008, oi_Code = 0x00,
       oi_LIType = 0x01, oi_LILength = 16,
       oi_LIValue = [0x01, 0x00, 0x00, 0x00, 0x1b, 0x04, 0xb0, 0x2a, 0xea, 0x15, 0x00, 0x00, 0x00, 0x23],
       oi_RIType = 0, oi_RILength = 0, oi_RIValue = [],
       oi_OSIType = 0xfe, oi_OSILength = 7, oi_OSIValue = [0x00, 0x10, 0x00, 0x00, 0x23]\<rparr>"]
  by simp

subsection \<open>The dispatcher\<close>

text \<open>
  Claim C7, as stated, fails for the slow-protocol EtherType: a 0xa8c8 frame from a MAC
  that the registry does not know is logged and dropped. Here the registry is empty and
  the frame is an OAMPDU from e8:b4:70:70:04:07; no packet-in is made.
\<close>

theorem dispatch_slow_protocol_unregistered_counterexample:
  "dispatch (\<lambda>mac. (None :: unit option)) (\<lambda>ind. False)
     \<lparr>Contents = [0x01, 0x80, 0xc2, 0x00, 0x00, 0x02, 0xe8, 0xb4, 0x70, 0x70, 0x04, 0x07, 0xa8, 0xc8],
      Payload = [0x03, 0x00, 0x50, 0x00],
      SrcMAC = [0xe8, 0xb4, 0x70, 0x70, 0x04, 0x07],
      DstMAC = [0x01, 0x80, 0xc2, 0x00, 0x00, 0x02],
      EthernetType = 0xa8c8\<rparr>
   = Some [Log Debug ''dispatch(). %x'',
           Log Debug ''receive message = 1904.2 OAM opcode=%v oampduCode=%v,  %x'',
           Log Error ''Received from an unregistered device. macAddr=%s'']"
  by (simp add: dispatch_def Let_def get8_def)

text \<open>
  Claim C7, amended. For a frame whose source MAC is not in the registry: when its
  EtherType is EAPOL (0x888e) or C-tag (0x8100), \<open>dispatch\<close> ends with the packet-in,
  which hands the whole frame (header and payload) to \<open>handlePacketIndication\<close>; when
  its EtherType is slow-protocol (0xa8c8), no packet-in is made: with a payload of four
  bytes or more the frame is dropped with an error log, and with a shorter payload
  \<open>dispatch\<close> panics on \<open>bytes[0]\<close> or \<open>bytes[3]\<close>, which it reads before the lookup.
\<close>

theorem dispatch_unregistered_source:
  assumes "FindL2oamDevice (hex_EncodeToString (SrcMAC etherPacket)) = None"
  shows "(EthernetType etherPacket = 0x888e \<or> EthernetType etherPacket = 0x8100 \<longrightarrow>
           (\<exists>logs. dispatch FindL2oamDevice hpiFails etherPacket
                     = Some (logs @ packetIn hpiFails etherPacket))
           \<and> handlePacketIndication \<lparr>IntfId = 0, GemportId = 1, PortNo = 16,
                  Pkt = Contents etherPacket @ Payload etherPacket, IntfType = ''pon''\<rparr>
               \<in> set (packetIn hpiFails etherPacket))
       \<and> (EthernetType etherPacket = 0xa8c8 \<and> 4 \<le> length (Payload etherPacket) \<longrightarrow>
           dispatch FindL2oamDevice hpiFails etherPacket
             = Some [Log Debug ''dispatch(). %x'',
                     Log Debug ''receive message = 1904.2 OAM opcode=%v oampduCode=%v,  %x'',
                     Log Error ''Received from an unregistered device. macAddr=%s''])
       \<and> (EthernetType etherPacket = 0xa8c8 \<and> length (Payload etherPacket) < 4 \<longrightarrow>
           dispatch FindL2oamDevice hpiFails etherPacket = None)"
  using assms
  by (auto simp: dispatch_def packetIn_def Let_def get8_def)

theorem dispatch_unregistered_source_witness:
  "\<exists>logs. dispatch (\<lambda>mac. (None :: unit option)) (\<lambda>ind. False)
     \<lparr>Contents = [0x01, 0x80, 0xc2, 0x00, 0x00, 0x03, 0xe8, 0xb4, 0x70, 0x70, 0x04, 0x07, 0x88, 0x8e],
      Payload = [0x03, 0x01, 0x00, 0x00],
      SrcMAC = [0xe8, 0xb4, 0x70, 0x70, 0x04, 0x07],
      DstMAC = [0x01, 0x80, 0xc2, 0x00, 0x00, 0x03],
      EthernetType = 0x888e\<rparr>
   = Some (logs @
          [Log Info ''L2oamHandle.packetIn() pktInd=%x'',
           handlePacketIndication \<lparr>IntfId = 0, GemportId = 1, PortNo = 16,
             Pkt = [0x01, 0x80, 0xc2, 0x00, 0x00, 0x03, 0xe8, 0xb4, 0x70, 0x70, 0x04, 0x07, 0x88, 0x8e,
                    0x03, 0x01, 0x00, 0x00],
             IntfType = ''pon''\<rparr>])"
  using dispatch_unregistered_source [where FindL2oamDevice = "\<lambda>mac. (None :: unit option)"
      and hpiFails = "\<lambda>ind. False"
      and etherPacket = "\<lparr>Contents = [0x01, 0x80, 0xc2, 0x00, 0x00, 0x03, 0xe8, 0xb4, 0x70, 0x70, 0x04, 0x07, 0x88, 0x8e],
      Payload = [0x03, 0x01, 0x00, 0x00],
      SrcMAC = [0xe8, 0xb4, 0x70, 0x70, 0x04, 0x07],
      DstMAC = [0x01, 0x80, 0xc2, 0x00, 0x00, 0x03],
      EthernetType = 0x888e\<rparr>"]
  by (simp add: packetIn_def Let_def)

text \<open>
  Claim C10. With \<open>vlanEnable = true\<close> the receive loop hands every frame to
  \<open>dispatchVlan\<close>, and a frame whose outer EtherType is not 0x88a8 produces log entries
  only: the two debug logs of the loop, the debug log of \<open>dispatchVlan\<close> and the error
  log of the discard. Neither a device method (keep-alive, response, EAPOL) nor the
  packet-in is called, whatever the registry holds and whatever the frame's
  EtherType (0xa8c8, 0x888e, 0x8100 or any other) is.
\<close>

theorem vlan_mode_discards_untagged:
  assumes "EthernetType etherPacket \<noteq> 0x88a8"
  shows "startThread_receive lib FindL2oamDevice hpiFails etherPacket
     = Some [Log Debug ''gopacket receive. %x'', Log Debug ''gopacket ether receive. %x'',
             Log Debug ''dispatchVlan(). %x'', Log Error ''Discard unsupported etherType. 0x%X'']"
  using assms by (simp add: startThread_receive_def vlanEnable_def dispatchVlan_def Let_def)

theorem vlan_mode_discards_untagged_witness:
  "startThread_receive
     \<lparr>Dot1Q_DecodeFromBytes = (\<lambda>data. None), Ethernet_DecodeFromBytes = (\<lambda>data. None)\<rparr>
     (\<lambda>mac. Some ''onu-1'') (\<lambda>ind. False)
     \<lparr>Contents = [0x01, 0x80, 0xc2, 0x00, 0x00, 0x03, 0xe8, 0xb4, 0x70, 0x70, 0x04, 0x07, 0x88, 0x8e],
      Payload = [0x03, 0x01, 0x00, 0x00],
      SrcMAC = [0xe8, 0xb4, 0x70, 0x70, 0x04, 0x07],
      DstMAC = [0x01, 0x80, 0xc2, 0x00, 0x00, 0x03],
      EthernetType = 0x888e\<rparr>
   = Some [Log Debug ''gopacket receive. %x'', Log Debug ''gopacket ether receive. %x'',
           Log Debug ''dispatchVlan(). %x'', Log Error ''Discard unsupported etherType. 0x%X'']"
  by (rule vlan_mode_discards_untagged) simp

subsection \<open>The poll loop of the ONU status ledger\<close>

lemma WatchStatus_range_eq:
  "WatchStatus_range fnd pkg l =
     (map (\<lambda>onu. if RebootState onu = ''reboot'' then onu\<lparr>RebootState := ''''\<rparr> else onu) l,
      List.map_filter (\<lambda>onu. if RebootState onu = ''reboot''
                              then map_option (\<lambda>dev. send dev (GenerateSetResetOnu pkg))
                                     (fnd (MacAddress onu))
                              else None) l)"
  by (induction l) (auto simp: List.map_filter_simps split: option.splits)

text \<open>
  Claim C8, as stated, fails for a record whose MAC address is not in the registry: the
  loop clears its reboot flag and rewrites the file, but sends nothing. Here the registry
  is empty.
\<close>

theorem WatchStatus_unregistered_mac_counterexample:
  "WatchStatus_tick (\<lambda>mac. (None :: unit option)) ''PkgB''
     (Document (Some [\<lparr>ID = ''onu-1'', AdminState = ''up'', OpeState = ''up'', ConnectState = ''up'',
          MacAddress = ''e8b470700407'', RebootState = ''reboot''\<rparr>]))
   = [WriteOnuStatusList (Some [\<lparr>ID = ''onu-1'', AdminState = ''up'', OpeState = ''up'',
          ConnectState = ''up'', MacAddress = ''e8b470700407'', RebootState = ''''\<rparr>])]"
  by (simp add: WatchStatus_tick_def)

text \<open>
  Claim C8, amended. One iteration of the poll loop (one per tick of its 1000 ms
  ticker) over a ledger that holds a list: for every record whose reboot state is
  \<open>"reboot"\<close> and whose MAC address the registry knows, the Set-Reset-ONU frame is
  sent to the device found, in the order of the list, and nothing is sent for the other
  records; then the whole list is written back with the reboot state of every
  \<open>"reboot"\<close> record cleared and all else as read. A reader of an absent file gets nil
  and no error, and an iteration over an absent file writes the nil list.
\<close>

theorem WatchStatus_tick_resets:
  "(\<forall>onuList. ReadOnuStatusList ledger = Inr (Some onuList) \<longrightarrow>
      WatchStatus_tick FindL2oamDevice OnuPkgType ledger =
        List.map_filter (\<lambda>onu. if RebootState onu = ''reboot''
                              then map_option (\<lambda>dev. send dev (GenerateSetResetOnu OnuPkgType))
                                     (FindL2oamDevice (MacAddress onu))
                              else None) onuList
        @ [WriteOnuStatusList (Some (map (\<lambda>onu. if RebootState onu = ''reboot''
                                                then onu\<lparr>RebootState := ''''\<rparr> else onu) onuList))])
   \<and> ReadOnuStatusList NotExist = Inr None
   \<and> WatchStatus_tick FindL2oamDevice OnuPkgType NotExist = [WriteOnuStatusList None]
   \<and> WatchStatus_ticker_ms = 1000"
  by (simp add: WatchStatus_tick_def WatchStatus_range_eq WatchStatus_ticker_ms_def)

theorem WatchStatus_tick_resets_witness:
  "WatchStatus_tick (\<lambda>mac. if mac = ''e8b470700407'' then Some ''onu-device-1'' else None) ''PkgB''
     (Document (Some [\<lparr>ID = ''onu-1'', AdminState = ''up'', OpeState = ''up'', ConnectState = ''up'',
          MacAddress = ''e8b470700407'', RebootState = ''reboot''\<rparr>,
        \<lparr>ID = ''onu-2'', AdminState = ''up'', OpeState = ''up'', ConnectState = ''up'',
          MacAddress = ''e8b470700408'', RebootState = ''''\<rparr>]))
   = [send ''onu-device-1'' [0x03, 0x00, 0x50, 0xfe, 0x90, 0x82, 0x60, 0x03,
            0xca, 0xfe, 0x00, 0xb9, 0x00, 0x0e, 0x01, 0x01, 0x00, 0x00],
      WriteOnuStatusList (Some [\<lparr>ID = ''onu-1'', AdminState = ''up'', OpeState = ''up'',
          ConnectState = ''up'', MacAddress = ''e8b470700407'', RebootState = ''''\<rparr>,
        \<lparr>ID = ''onu-2'', AdminState = ''up'', OpeState = ''up'', ConnectState = ''up'',
          MacAddress = ''e8b470700408'', RebootState = ''''\<rparr>])]"
  using WatchStatus_tick_resets [where ledger = "Document (Some [\<lparr>ID = ''onu-1'', AdminState = ''up'', OpeState = ''up'', ConnectState = ''up'',
          MacAddress = ''e8b470700407'', RebootState = ''reboot''\<rparr>,
        \<lparr>ID = ''onu-2'', AdminState = ''up'', OpeState = ''up'', ConnectState = ''up'',
          MacAddress = ''e8b470700408'', RebootState = ''''\<rparr>])"
      and FindL2oamDevice = "\<lambda>mac. if mac = ''e8b470700407'' then Some ''onu-device-1'' else None"
      and OnuPkgType = "''PkgB''"]
  by (simp add: List.map_filter_simps GenerateSetResetOnu_def OnuPkgTypeB_def)

subsection \<open>Round trips of the codec\<close>

lemma zero_padded_full: "length pre = n \<Longrightarrow> zero_padded pre n = pre"
  by (simp add: zero_padded_def)

lemma from_be16: "push_bit 8 (ucast (ucast (drop_bit 8 v :: u16) :: u8)) OR ucast (ucast v :: u8) = (v :: u16)"
  by (rule bit_word_eqI) (auto simp: bit_simps)

lemma get8_at: "\<lbrakk>data = pre @ v # rest; i = length pre\<rbrakk> \<Longrightarrow> get8 data i = Some v"
  by (simp add: get8_def)

lemma slice_at:
  "\<lbrakk>data = pre @ v @ rest; lo = length pre; hi = lo + length v\<rbrakk> \<Longrightarrow> slice data lo hi = Some v"
  by (simp add: slice_def)

lemma Uint16_at: "\<lbrakk>data = pre @ be16 v @ rest; i = length pre\<rbrakk> \<Longrightarrow> Uint16 data i = Some v"
  using slice_at [of data pre "be16 v" rest i "i + 2"]
  by (simp add: Uint16_def) (simp add: be16_def from_be16)

lemma DiscoverySolicit_SerializeTo_bytes:
  assumes "DiscoverySolicit_legal x"
  shows "DiscoverySolicit_SerializeTo x = Some (DiscoverySolicit_bytes x)"
  using assms
  apply (simp add: DiscoverySolicit_SerializeTo_def DiscoverySolicit_legal_def
      DiscoverySolicit_Len_def Let_def zero_padded_writes)
  apply (simp add: zero_padded_full DiscoverySolicit_bytes_def)
  done

lemma DiscoverySolicit_Decode_bytes:
  assumes legal: "DiscoverySolicit_legal x"
  shows "DiscoverySolicit_Decode (DiscoverySolicit_bytes x) = Some x"
proof -
  let ?d = "DiscoverySolicit_bytes x"
  let ?h = "[ds_Opcode x, ds_DiscoveryType x, ds_VendorType x] @ be16 (ds_Length x)"
  let ?t1 = "ds_VendorIDType x # be16 (ds_VendorIDLength x) @ ds_VendorID x"
  let ?t2 = "ds_CPType x # be16 (ds_CPLength x) @ ds_CPValue x"
  let ?t3 = "ds_NWType x # be16 (ds_NWLength x) @ ds_NWValue x"
  let ?t4 = "ds_DVType x # be16 (ds_DVLength x) @ ds_DVValue x"
  let ?t5 = "ds_SCPType x # be16 (ds_SCPLength x) @ ds_SCPValue x"
  let ?t6 = "ds_PadType x # be16 (ds_PadLength x) @ ds_PadValue x"
  from legal have len:
    "length (ds_VendorID x) = unat (ds_VendorIDLength x)"
    "length (ds_CPValue x) = unat (ds_CPLength x)"
    "length (ds_NWValue x) = unat (ds_NWLength x)"
    "length (ds_DVValue x) = unat (ds_DVLength x)"
    "length (ds_SCPValue x) = unat (ds_SCPLength x)"
    "length (ds_PadValue x) = unat (ds_PadLength x)"
    by (simp_all add: DiscoverySolicit_legal_def)
  have h1: "get8 ?d 0 = Some (ds_Opcode x)"
    by (rule get8_at [where pre = "[]" and rest = "tl ?d"]; simp add: DiscoverySolicit_bytes_def)
  have h2: "get8 ?d (0 + 1) = Some (ds_DiscoveryType x)"
    by (rule get8_at [where pre = "[ds_Opcode x]" and rest = "drop 2 ?d"]; simp add: DiscoverySolicit_bytes_def)
  have h3: "get8 ?d (0 + 1 + 1) = Some (ds_VendorType x)"
    by (rule get8_at [where pre = "[ds_Opcode x, ds_DiscoveryType x]" and rest = "drop 3 ?d"];
        simp add: DiscoverySolicit_bytes_def)
  have h4: "Uint16 ?d (0 + 1 + 1 + 1) = Some (ds_Length x)"
    by (rule Uint16_at [where pre = "[ds_Opcode x, ds_DiscoveryType x, ds_VendorType x]"
          and rest = "?t1 @ ?t2 @ ?t3 @ ?t4 @ ?t5 @ ?t6"];
        simp add: DiscoverySolicit_bytes_def)
  have a1: "get8 ?d (0 + 1 + 1 + 1 + 2) = Some (ds_VendorIDType x)"
    by (rule get8_at [where pre = "?h"
          and rest = "be16 (ds_VendorIDLength x) @ ds_VendorID x @ ?t2 @ ?t3 @ ?t4 @ ?t5 @ ?t6"];
        simp add: DiscoverySolicit_bytes_def len)
  have b1: "Uint16 ?d (0 + 1 + 1 + 1 + 2 + 1) = Some (ds_VendorIDLength x)"
    by (rule Uint16_at [where pre = "?h @ [ds_VendorIDType x]"
          and rest = "ds_VendorID x @ ?t2 @ ?t3 @ ?t4 @ ?t5 @ ?t6"];
        simp add: DiscoverySolicit_bytes_def len)
  have c1: "slice ?d (0 + 1 + 1 + 1 + 2 + 1 + 2) (0 + 1 + 1 + 1 + 2 + 1 + 2 + unat (ds_VendorIDLength x))
        = Some (ds_VendorID x)"
    by (rule slice_at [where pre = "?h @ ds_VendorIDType x # be16 (ds_VendorIDLength x)"
          and rest = "?t2 @ ?t3 @ ?t4 @ ?t5 @ ?t6"];
        simp add: DiscoverySolicit_bytes_def len)
  have a2: "get8 ?d (0 + 1 + 1 + 1 + 2 + 1 + 2 + unat (ds_VendorIDLength x)) = Some (ds_CPType x)"
    by (rule get8_at [where pre = "?h @ ?t1"
          and rest = "be16 (ds_CPLength x) @ ds_CPValue x @ ?t3 @ ?t4 @ ?t5 @ ?t6"];
        simp add: DiscoverySolicit_bytes_def len)
  have b2: "Uint16 ?d (0 + 1 + 1 + 1 + 2 + 1 + 2 + unat (ds_VendorIDLength x) + 1) = Some (ds_CPLength x)"
    by (rule Uint16_at [where pre = "?h @ ?t1 @ [ds_CPType x]"
          and rest = "ds_CPValue x @ ?t3 @ ?t4 @ ?t5 @ ?t6"];
        simp add: DiscoverySolicit_bytes_def len)
  have c2: "slice ?d (0 + 1 + 1 + 1 + 2 + 1 + 2 + unat (ds_VendorIDLength x) + 1 + 2) (0 + 1 + 1 + 1 + 2 + 1 + 2 + unat (ds_VendorIDLength x) + 1 + 2 + unat (ds_CPLength x))
        = Some (ds_CPValue x)"
    by (rule slice_at [where pre = "?h @ ?t1 @ ds_CPType x # be16 (ds_CPLength x)"
          and rest = "?t3 @ ?t4 @ ?t5 @ ?t6"];
        simp add: DiscoverySolicit_bytes_def len)
  have a3: "get8 ?d (0 + 1 + 1 + 1 + 2 + 1 + 2 + unat (ds_VendorIDLength x) + 1 + 2 + unat (ds_CPLength x)) = Some (ds_NWType x)"
    by (rule get8_at [where pre = "?h @ ?t1 @ ?t2"
          and rest = "be16 (ds_NWLength x) @ ds_NWValue x @ ?t4 @ ?t5 @ ?t6"];
        simp add: DiscoverySolicit_bytes_def len)
  have b3: "Uint16 ?d (0 + 1 + 1 + 1 + 2 + 1 + 2 + unat (ds_VendorIDLength x) + 1 + 2 + unat (ds_CPLength x) + 1) = Some (ds_NWLength x)"
    by (rule Uint16_at [where pre = "?h @ ?t1 @ ?t2 @ [ds_NWType x]"
          and rest = "ds_NWValue x @ ?t4 @ ?t5 @ ?t6"];
        simp add: DiscoverySolicit_bytes_def len)
  have c3: "slice ?d (0 + 1 + 1 + 1 + 2 + 1 + 2 + unat (ds_VendorIDLength x) + 1 + 2 + unat (ds_CPLength x) + 1 + 2) (0 + 1 + 1 + 1 + 2 + 1 + 2 + unat (ds_VendorIDLength x) + 1 + 2 + unat (ds_CPLength x) + 1 + 2 + unat (ds_NWLength x))
        = Some (ds_NWValue x)"
    by (rule slice_at [where pre = "?h @ ?t1 @ ?t2 @ ds_NWType x # be16 (ds_NWLength x)"
          and rest = "?t4 @ ?t5 @ ?t6"];
        simp add: DiscoverySolicit_bytes_def len)
  have a4: "get8 ?d (0 + 1 + 1 + 1 + 2 + 1 + 2 + unat (ds_VendorIDLength x) + 1 + 2 + unat (ds_CPLength x) + 1 + 2 + unat (ds_NWLength x)) = Some (ds_DVType x)"
    by (rule get8_at [where pre = "?h @ ?t1 @ ?t2 @ ?t3"
          and rest = "be16 (ds_DVLength x) @ ds_DVValue x @ ?t5 @ ?t6"];
        simp add: DiscoverySolicit_bytes_def len)
  have b4: "Uint16 ?d (0 + 1 + 1 + 1 + 2 + 1 + 2 + unat (ds_VendorIDLength x) + 1 + 2 + unat (ds_CPLength x) + 1 + 2 + unat (ds_NWLength x) + 1) = Some (ds_DVLength x)"
    by (rule Uint16_at [where pre = "?h @ ?t1 @ ?t2 @ ?t3 @ [ds_DVType x]"
          and rest = "ds_DVValue x @ ?t5 @ ?t6"];
        simp add: DiscoverySolicit_bytes_def len)
  have c4: "slice ?d (0 + 1 + 1 + 1 + 2 + 1 + 2 + unat (ds_VendorIDLength x) + 1 + 2 + unat (ds_CPLength x) + 1 + 2 + unat (ds_NWLength x) + 1 + 2) (0 + 1 + 1 + 1 + 2 + 1 + 2 + unat (ds_VendorIDLength x) + 1 + 2 + unat (ds_CPLength x) + 1 + 2 + unat (ds_NWLength x) + 1 + 2 + unat (ds_DVLength x))
        = Some (ds_DVValue x)"
    by (rule slice_at [where pre = "?h @ ?t1 @ ?t2 @ ?t3 @ ds_DVType x # be16 (ds_DVLength x)"
          and rest = "?t5 @ ?t6"];
        simp add: DiscoverySolicit_bytes_def len)
  have a5: "get8 ?d (0 + 1 + 1 + 1 + 2 + 1 + 2 + unat (ds_VendorIDLength x) + 1 + 2 + unat (ds_CPLength x) + 1 + 2 + unat (ds_NWLength x) + 1 + 2 + unat (ds_DVLength x)) = Some (ds_SCPType x)"
    by (rule get8_at [where pre = "?h @ ?t1 @ ?t2 @ ?t3 @ ?t4"
          and rest = "be16 (ds_SCPLength x) @ ds_SCPValue x @ ?t6"];
        simp add: DiscoverySolicit_bytes_def len)
  have b5: "Uint16 ?d (0 + 1 + 1 + 1 + 2 + 1 + 2 + unat (ds_VendorIDLength x) + 1 + 2 + unat (ds_CPLength x) + 1 + 2 + unat (ds_NWLength x) + 1 + 2 + unat (ds_DVLength x) + 1) = Some (ds_SCPLength x)"
    by (rule Uint16_at [where pre = "?h @ ?t1 @ ?t2 @ ?t3 @ ?t4 @ [ds_SCPType x]"
          and rest = "ds_SCPValue x @ ?t6"];
        simp add: DiscoverySolicit_bytes_def len)
  have c5: "slice ?d (0 + 1 + 1 + 1 + 2 + 1 + 2 + unat (ds_VendorIDLength x) + 1 + 2 + unat (ds_CPLength x) + 1 + 2 + unat (ds_NWLength x) + 1 + 2 + unat (ds_DVLength x) + 1 + 2) (0 + 1 + 1 + 1 + 2 + 1 + 2 + unat (ds_VendorIDLength x) + 1 + 2 + unat (ds_CPLength x) + 1 + 2 + unat (ds_NWLength x) + 1 + 2 + unat (ds_DVLength x) + 1 + 2 + unat (ds_SCPLength x))
        = Some (ds_SCPValue x)"
    by (rule slice_at [where pre = "?h @ ?t1 @ ?t2 @ ?t3 @ ?t4 @ ds_SCPType x # be16 (ds_SCPLength x)"
          and rest = "?t6"];
        simp add: DiscoverySolicit_bytes_def len)
  have a6: "get8 ?d (0 + 1 + 1 + 1 + 2 + 1 + 2 + unat (ds_VendorIDLength x) + 1 + 2 + unat (ds_CPLength x) + 1 + 2 + unat (ds_NWLength x) + 1 + 2 + unat (ds_DVLength x) + 1 + 2 + unat (ds_SCPLength x)) = Some (ds_PadType x)"
    by (rule get8_at [where pre = "?h @ ?t1 @ ?t2 @ ?t3 @ ?t4 @ ?t5"
          and rest = "be16 (ds_PadLength x) @ ds_PadValue x @ []"];
        simp add: DiscoverySolicit_bytes_def len)
  have b6: "Uint16 ?d (0 + 1 + 1 + 1 + 2 + 1 + 2 + unat (ds_VendorIDLength x) + 1 + 2 + unat (ds_CPLength x) + 1 + 2 + unat (ds_NWLength x) + 1 + 2 + unat (ds_DVLength x) + 1 + 2 + unat (ds_SCPLength x) + 1) = Some (ds_PadLength x)"
    by (rule Uint16_at [where pre = "?h @ ?t1 @ ?t2 @ ?t3 @ ?t4 @ ?t5 @ [ds_PadType x]"
          and rest = "ds_PadValue x @ []"];
        simp add: DiscoverySolicit_bytes_def len)
  have c6: "slice ?d (0 + 1 + 1 + 1 + 2 + 1 + 2 + unat (ds_VendorIDLength x) + 1 + 2 + unat (ds_CPLength x) + 1 + 2 + unat (ds_NWLength x) + 1 + 2 + unat (ds_DVLength x) + 1 + 2 + unat (ds_SCPLength x) + 1 + 2) (0 + 1 + 1 + 1 + 2 + 1 + 2 + unat (ds_VendorIDLength x) + 1 + 2 + unat (ds_CPLength x) + 1 + 2 + unat (ds_NWLength x) + 1 + 2 + unat (ds_DVLength x) + 1 + 2 + unat (ds_SCPLength x) + 1 + 2 + unat (ds_PadLength x))
        = Some (ds_PadValue x)"
    by (rule slice_at [where pre = "?h @ ?t1 @ ?t2 @ ?t3 @ ?t4 @ ?t5 @ ds_PadType x # be16 (ds_PadLength x)"
          and rest = "[]"];
        simp add: DiscoverySolicit_bytes_def len)
  show ?thesis
    by (simp only: DiscoverySolicit_Decode_def Let_def h1 h2 h3 h4 a1 b1 c1 a2 b2 c2 a3 b3 c3 a4 b4 c4 a5 b5 c5 a6 b6 c6 Option.bind.simps) simp
qed

lemma DiscoveryHello_SerializeTo_bytes:
  assumes "DiscoveryHello_legal x"
  shows "DiscoveryHello_SerializeTo x = Some (DiscoveryHello_bytes x)"
  using assms
  apply (simp add: DiscoveryHello_SerializeTo_def DiscoveryHello_legal_def
      DiscoveryHello_Len_def Let_def zero_padded_writes)
  apply (simp add: zero_padded_full DiscoveryHello_bytes_def)
  done

lemma DiscoveryHello_Decode_bytes:
  assumes legal: "DiscoveryHello_legal x"
  shows "DiscoveryHello_Decode (DiscoveryHello_bytes x) = Some x"
proof -
  let ?d = "DiscoveryHello_bytes x"
  let ?h = "[dh_Opcode x, dh_DiscoveryType x, dh_VendorType x] @ be16 (dh_Length x)"
  let ?t1 = "dh_VendorIDType x # be16 (dh_VendorIDLength x) @ dh_VendorID x"
  let ?t2 = "dh_NWType x # be16 (dh_NWLength x) @ dh_NWValue x"
  let ?t3 = "dh_DVType x # be16 (dh_DVLength x) @ dh_DVValue x"
  let ?t4 = "dh_SCPType x # be16 (dh_SCPLength x) @ dh_SCPValue x"
  let ?t5 = "dh_TunnelType x # be16 (dh_TunnelLength x) @ dh_TunnelValue x"
  let ?t6 = "dh_PadType x # be16 (dh_PadLength x) @ dh_PadValue x"
  from legal have len:
    "length (dh_VendorID x) = unat (dh_VendorIDLength x)"
    "length (dh_NWValue x) = unat (dh_NWLength x)"
    "length (dh_DVValue x) = unat (dh_DVLength x)"
    "length (dh_SCPValue x) = unat (dh_SCPLength x)"
    "length (dh_TunnelValue x) = unat (dh_TunnelLength x)"
    "length (dh_PadValue x) = unat (dh_PadLength x)"
    by (simp_all add: DiscoveryHello_legal_def)
  have h1: "get8 ?d 0 = Some (dh_Opcode x)"
    by (rule get8_at [where pre = "[]" and rest = "tl ?d"]; simp add: DiscoveryHello_bytes_def)
  have h2: "get8 ?d (0 + 1) = Some (dh_DiscoveryType x)"
    by (rule get8_at [where pre = "[dh_Opcode x]" and rest = "drop 2 ?d"]; simp add: DiscoveryHello_bytes_def)
  have h3: "get8 ?d (0 + 1 + 1) = Some (dh_VendorType x)"
    by (rule get8_at [where pre = "[dh_Opcode x, dh_DiscoveryType x]" and rest = "drop 3 ?d"];
        simp add: DiscoveryHello_bytes_def)
  have h4: "Uint16 ?d (0 + 1 + 1 + 1) = Some (dh_Length x)"
    by (rule Uint16_at [where pre = "[dh_Opcode x, dh_DiscoveryType x, dh_VendorType x]"
          and rest = "?t1 @ ?t2 @ ?t3 @ ?t4 @ ?t5 @ ?t6"];
        simp add: DiscoveryHello_bytes_def)
  have a1: "get8 ?d (0 + 1 + 1 + 1 + 2) = Some (dh_VendorIDType x)"
    by (rule get8_at [where pre = "?h"
          and rest = "be16 (dh_VendorIDLength x) @ dh_VendorID x @ ?t2 @ ?t3 @ ?t4 @ ?t5 @ ?t6"];
        simp add: DiscoveryHello_bytes_def len)
  have b1: "Uint16 ?d (0 + 1 + 1 + 1 + 2 + 1) = Some (dh_VendorIDLength x)"
    by (rule Uint16_at [where pre = "?h @ [dh_VendorIDType x]"
          and rest = "dh_VendorID x @ ?t2 @ ?t3 @ ?t4 @ ?t5 @ ?t6"];
        simp add: DiscoveryHello_bytes_def len)
  have c1: "slice ?d (0 + 1 + 1 + 1 + 2 + 1 + 2) (0 + 1 + 1 + 1 + 2 + 1 + 2 + unat (dh_VendorIDLength x))
        = Some (dh_VendorID x)"
    by (rule slice_at [where pre = "?h @ dh_VendorIDType x # be16 (dh_VendorIDLength x)"
          and rest = "?t2 @ ?t3 @ ?t4 @ ?t5 @ ?t6"];
        simp add: DiscoveryHello_bytes_def len)
  have a2: "get8 ?d (0 + 1 + 1 + 1 + 2 + 1 + 2 + unat (dh_VendorIDLength x)) = Some (dh_NWType x)"
    by (rule get8_at [where pre = "?h @ ?t1"
          and rest = "be16 (dh_NWLength x) @ dh_NWValue x @ ?t3 @ ?t4 @ ?t5 @ ?t6"];
        simp add: DiscoveryHello_bytes_def len)
  have b2: "Uint16 ?d (0 + 1 + 1 + 1 + 2 + 1 + 2 + unat (dh_VendorIDLength x) + 1) = Some (dh_NWLength x)"
    by (rule Uint16_at [where pre = "?h @ ?t1 @ [dh_NWType x]"
          and rest = "dh_NWValue x @ ?t3 @ ?t4 @ ?t5 @ ?t6"];
        simp add: DiscoveryHello_bytes_def len)
  have c2: "slice ?d (0 + 1 + 1 + 1 + 2 + 1 + 2 + unat (dh_VendorIDLength x) + 1 + 2) (0 + 1 + 1 + 1 + 2 + 1 + 2 + unat (dh_VendorIDLength x) + 1 + 2 + unat (dh_NWLength x))
        = Some (dh_NWValue x)"
    by (rule slice_at [where pre = "?h @ ?t1 @ dh_NWType x # be16 (dh_NWLength x)"
          and rest = "?t3 @ ?t4 @ ?t5 @ ?t6"];
        simp add: DiscoveryHello_bytes_def len)
  have a3: "get8 ?d (0 + 1 + 1 + 1 + 2 + 1 + 2 + unat (dh_VendorIDLength x) + 1 + 2 + unat (dh_NWLength x)) = Some (dh_DVType x)"
    by (rule get8_at [where pre = "?h @ ?t1 @ ?t2"
          and rest = "be16 (dh_DVLength x) @ dh_DVValue x @ ?t4 @ ?t5 @ ?t6"];
        simp add: DiscoveryHello_bytes_def len)
  have b3: "Uint16 ?d (0 + 1 + 1 + 1 + 2 + 1 + 2 + unat (dh_VendorIDLength x) + 1 + 2 + unat (dh_NWLength x) + 1) = Some (dh_DVLength x)"
    by (rule Uint16_at [where pre = "?h @ ?t1 @ ?t2 @ [dh_DVType x]"
          and rest = "dh_DVValue x @ ?t4 @ ?t5 @ ?t6"];
        simp add: DiscoveryHello_bytes_def len)
  have c3: "slice ?d (0 + 1 + 1 + 1 + 2 + 1 + 2 + unat (dh_VendorIDLength x) + 1 + 2 + unat (dh_NWLength x) + 1 + 2) (0 + 1 + 1 + 1 + 2 + 1 + 2 + unat (dh_VendorIDLength x) + 1 + 2 + unat (dh_NWLength x) + 1 + 2 + unat (dh_DVLength x))
        = Some (dh_DVValue x)"
    by (rule slice_at [where pre = "?h @ ?t1 @ ?t2 @ dh_DVType x # be16 (dh_DVLength x)"
          and rest = "?t4 @ ?t5 @ ?t6"];
        simp add: DiscoveryHello_bytes_def len)
  have a4: "get8 ?d (0 + 1 + 1 + 1 + 2 + 1 + 2 + unat (dh_VendorIDLength x) + 1 + 2 + unat (dh_NWLength x) + 1 + 2 + unat (dh_DVLength x)) = Some (dh_SCPType x)"
    by (rule get8_at [where pre = "?h @ ?t1 @ ?t2 @ ?t3"
          and rest = "be16 (dh_SCPLength x) @ dh_SCPValue x @ ?t5 @ ?t6"];
        simp add: DiscoveryHello_bytes_def len)
  have b4: "Uint16 ?d (0 + 1 + 1 + 1 + 2 + 1 + 2 + unat (dh_VendorIDLength x) + 1 + 2 + unat (dh_NWLength x) + 1 + 2 + unat (dh_DVLength x) + 1) = Some (dh_SCPLength x)"
    by (rule Uint16_at [where pre = "?h @ ?t1 @ ?t2 @ ?t3 @ [dh_SCPType x]"
          and rest = "dh_SCPValue x @ ?t5 @ ?t6"];
        simp add: DiscoveryHello_bytes_def len)
  have c4: "slice ?d (0 + 1 + 1 + 1 + 2 + 1 + 2 + unat (dh_VendorIDLength x) + 1 + 2 + unat (dh_NWLength x) + 1 + 2 + unat (dh_DVLength x) + 1 + 2) (0 + 1 + 1 + 1 + 2 + 1 + 2 + unat (dh_VendorIDLength x) + 1 + 2 + unat (dh_NWLength x) + 1 + 2 + unat (dh_DVLength x) + 1 + 2 + unat (dh_SCPLength x))
        = Some (dh_SCPValue x)"
    by (rule slice_at [where pre = "?h @ ?t1 @ ?t2 @ ?t3 @ dh_SCPType x # be16 (dh_SCPLength x)"
          and rest = "?t5 @ ?t6"];
        simp add: DiscoveryHello_bytes_def len)
  have a5: "get8 ?d (0 + 1 + 1 + 1 + 2 + 1 + 2 + unat (dh_VendorIDLength x) + 1 + 2 + unat (dh_NWLength x) + 1 + 2 + unat (dh_DVLength x) + 1 + 2 + unat (dh_SCPLength x)) = Some (dh_TunnelType x)"
    by (rule get8_at [where pre = "?h @ ?t1 @ ?t2 @ ?t3 @ ?t4"
          and rest = "be16 (dh_TunnelLength x) @ dh_TunnelValue x @ ?t6"];
        simp add: DiscoveryHello_bytes_def len)
  have b5: "Uint16 ?d (0 + 1 + 1 + 1 + 2 + 1 + 2 + unat (dh_VendorIDLength x) + 1 + 2 + unat (dh_NWLength x) + 1 + 2 + unat (dh_DVLength x) + 1 + 2 + unat (dh_SCPLength x) + 1) = Some (dh_TunnelLength x)"
    by (rule Uint16_at [where pre = "?h @ ?t1 @ ?t2 @ ?t3 @ ?t4 @ [dh_TunnelType x]"
          and rest = "dh_TunnelValue x @ ?t6"];
        simp add: DiscoveryHello_bytes_def len)
  have c5: "slice ?d (0 + 1 + 1 + 1 + 2 + 1 + 2 + unat (dh_VendorIDLength x) + 1 + 2 + unat (dh_NWLength x) + 1 + 2 + unat (dh_DVLength x) + 1 + 2 + unat (dh_SCPLength x) + 1 + 2) (0 + 1 + 1 + 1 + 2 + 1 + 2 + unat (dh_VendorIDLength x) + 1 + 2 + unat (dh_NWLength x) + 1 + 2 + unat (dh_DVLength x) + 1 + 2 + unat (dh_SCPLength x) + 1 + 2 + unat (dh_TunnelLength x))
        = Some (dh_TunnelValue x)"
    by (rule slice_at [where pre = "?h @ ?t1 @ ?t2 @ ?t3 @ ?t4 @ dh_TunnelType x # be16 (dh_TunnelLength x)"
          and rest = "?t6"];
        simp add: DiscoveryHello_bytes_def len)
  have a6: "get8 ?d (0 + 1 + 1 + 1 + 2 + 1 + 2 + unat (dh_VendorIDLength x) + 1 + 2 + unat (dh_NWLength x) + 1 + 2 + unat (dh_DVLength x) + 1 + 2 + unat (dh_SCPLength x) + 1 + 2 + unat (dh_TunnelLength x)) = Some (dh_PadType x)"
    by (rule get8_at [where pre = "?h @ ?t1 @ ?t2 @ ?t3 @ ?t4 @ ?t5"
          and rest = "be16 (dh_PadLength x) @ dh_PadValue x @ []"];
        simp add: DiscoveryHello_bytes_def len)
  have b6: "Uint16 ?d (0 + 1 + 1 + 1 + 2 + 1 + 2 + unat (dh_VendorIDLength x) + 1 + 2 + unat (dh_NWLength x) + 1 + 2 + unat (dh_DVLength x) + 1 + 2 + unat (dh_SCPLength x) + 1 + 2 + unat (dh_TunnelLength x) + 1) = Some (dh_PadLength x)"
    by (rule Uint16_at [where pre = "?h @ ?t1 @ ?t2 @ ?t3 @ ?t4 @ ?t5 @ [dh_PadType x]"
          and rest = "dh_PadValue x @ []"];
        simp add: DiscoveryHello_bytes_def len)
  have c6: "slice ?d (0 + 1 + 1 + 1 + 2 + 1 + 2 + unat (dh_VendorIDLength x) + 1 + 2 + unat (dh_NWLength x) + 1 + 2 + unat (dh_DVLength x) + 1 + 2 + unat (dh_SCPLength x) + 1 + 2 + unat (dh_TunnelLength x) + 1 + 2) (0 + 1 + 1 + 1 + 2 + 1 + 2 + unat (dh_VendorIDLength x) + 1 + 2 + unat (dh_NWLength x) + 1 + 2 + unat (dh_DVLength x) + 1 + 2 + unat (dh_SCPLength x) + 1 + 2 + unat (dh_TunnelLength x) + 1 + 2 + unat (dh_PadLength x))
        = Some (dh_PadValue x)"
    by (rule slice_at [where pre = "?h @ ?t1 @ ?t2 @ ?t3 @ ?t4 @ ?t5 @ dh_PadType x # be16 (dh_PadLength x)"
          and rest = "[]"];
        simp add: DiscoveryHello_bytes_def len)
  show ?thesis
    by (simp only: DiscoveryHello_Decode_def Let_def h1 h2 h3 h4 a1 b1 c1 a2 b2 c2 a3 b3 c3 a4 b4 c4 a5 b5 c5 a6 b6 c6 Option.bind.simps) simp
qed

lemma tlv_ok_cases:
  assumes "OAMPDUInformation_tlv_ok code t l v"
  obtains (absent) "t = 0" "l = 0" "v = []"
        | (present) "t = code" "unat l = length v + 2" "l \<noteq> 0"
proof -
  have "l \<noteq> 0" if "unat l = length v + 2"
    using that by auto
  with assms absent present show thesis
    by (auto simp: OAMPDUInformation_tlv_ok_def)
qed

lemma OAMPDUInformation_SerializeTo_bytes:
  assumes "OAMPDUInformation_wellformed x"
  shows "OAMPDUInformation_SerializeTo x = Some (OAMPDUInformation_bytes x)"
proof -
  from assms have
    li: "OAMPDUInformation_tlv_ok OampduTlvTypeLocalInfo (oi_LIType x) (oi_LILength x) (oi_LIValue x)"
    and ri: "OAMPDUInformation_tlv_ok OampduTlvTypeRemoteInfo (oi_RIType x) (oi_RILength x) (oi_RIValue x)"
    and osi: "OAMPDUInformation_tlv_ok OampduTlvTypeOrganizationSpecificInfo
          (oi_OSIType x) (oi_OSILength x) (oi_OSIValue x)"
    by (simp_all add: OAMPDUInformation_wellformed_def)
  show ?thesis
    using li
  proof (cases rule: tlv_ok_cases)
    case absent
    note l = this
    show ?thesis using ri
    proof (cases rule: tlv_ok_cases)
      case absent
      note r = this
      show ?thesis using osi
      proof (cases rule: tlv_ok_cases)
        case absent
        with l r show ?thesis
          by (simp add: OAMPDUInformation_SerializeTo_def OAMPDUInformation_Len_def Let_def
              zero_padded_writes OAMPDUInformation_bytes_def OAMPDUInformation_tlv_bytes_def
              zero_padded_full)
      next
        case present
        with l r show ?thesis
          by (simp add: OAMPDUInformation_SerializeTo_def OAMPDUInformation_Len_def Let_def
              zero_padded_writes OAMPDUInformation_bytes_def OAMPDUInformation_tlv_bytes_def
              zero_padded_full)
      qed
    next
      case present
      note r = this
      show ?thesis using osi
      proof (cases rule: tlv_ok_cases)
        case absent
        with l r show ?thesis
          by (simp add: OAMPDUInformation_SerializeTo_def OAMPDUInformation_Len_def Let_def
              zero_padded_writes OAMPDUInformation_bytes_def OAMPDUInformation_tlv_bytes_def
              zero_padded_full)
      next
        case present
        with l r show ?thesis
          by (simp add: OAMPDUInformation_SerializeTo_def OAMPDUInformation_Len_def Let_def
              zero_padded_writes OAMPDUInformation_bytes_def OAMPDUInformation_tlv_bytes_def
              zero_padded_full)
      qed
    qed
  next
    case present
    note l = this
    show ?thesis using ri
    proof (cases rule: tlv_ok_cases)
      case absent
      note r = this
      show ?thesis using osi
      proof (cases rule: tlv_ok_cases)
        case absent
        with l r show ?thesis
          by (simp add: OAMPDUInformation_SerializeTo_def OAMPDUInformation_Len_def Let_def
              zero_padded_writes OAMPDUInformation_bytes_def OAMPDUInformation_tlv_bytes_def
              zero_padded_full)
      next
        case present
        with l r show ?thesis
          by (simp add: OAMPDUInformation_SerializeTo_def OAMPDUInformation_Len_def Let_def
              zero_padded_writes OAMPDUInformation_bytes_def OAMPDUInformation_tlv_bytes_def
              zero_padded_full)
      qed
    next
      case present
      note r = this
      show ?thesis using osi
      proof (cases rule: tlv_ok_cases)
        case absent
        with l r show ?thesis
          by (simp add: OAMPDUInformation_SerializeTo_def OAMPDUInformation_Len_def Let_def
              zero_padded_writes OAMPDUInformation_bytes_def OAMPDUInformation_tlv_bytes_def
              zero_padded_full)
      next
        case present
        with l r show ?thesis
          by (simp add: OAMPDUInformation_SerializeTo_def OAMPDUInformation_Len_def Let_def
              zero_padded_writes OAMPDUInformation_bytes_def OAMPDUInformation_tlv_bytes_def
              zero_padded_full)
      qed
    qed
  qed
qed


lemma Decode_loop_end:
  "length data \<le> i \<Longrightarrow> OAMPDUInformation_Decode_loop d data i = Some (Inr d)"
  by (subst OAMPDUInformation_Decode_loop.simps) simp

lemma Decode_loop_present:
  assumes "data = pre @ (t # l # v) @ rest" and "i = length pre" and "unat l = length v + 2"
  shows "OAMPDUInformation_Decode_loop d data i =
     (if t = OampduTlvTypeLocalInfo then
        OAMPDUInformation_Decode_loop
          (d\<lparr>oi_LIType := t, oi_LILength := l, oi_LIValue := v\<rparr>) data (i + unat l)
      else if t = OampduTlvTypeRemoteInfo then
        OAMPDUInformation_Decode_loop
          (d\<lparr>oi_RIType := t, oi_RILength := l, oi_RIValue := v\<rparr>) data (i + unat l)
      else if t = OampduTlvTypeOrganizationSpecificInfo then
        OAMPDUInformation_Decode_loop
          (d\<lparr>oi_OSIType := t, oi_OSILength := l, oi_OSIValue := v\<rparr>) data (i + unat l)
      else Some (Inl (tlvType_Error t)))"
proof -
  have g0: "get8 data i = Some t"
    using assms by (intro get8_at [where pre = pre and rest = "l # v @ rest"]) simp_all
  have g1: "get8 data (i + 1) = Some l"
    using assms by (intro get8_at [where pre = "pre @ [t]" and rest = "v @ rest"]) simp_all
  have sl: "slice data (i + 2) (i + unat l) = Some v"
    using assms by (intro slice_at [where pre = "pre @ [t, l]" and rest = rest]) simp_all
  have l0: "l \<noteq> 0" using assms(3) by auto
  have len: "\<not> length data \<le> i" using assms by simp
  show ?thesis
    using g0 g1 sl l0 len
    by (subst OAMPDUInformation_Decode_loop.simps) simp
qed

lemma Decode_loop_OSI:
  assumes ok: "OAMPDUInformation_tlv_ok OampduTlvTypeOrganizationSpecificInfo t l v"
    and i: "i = length pre" and z: "oi_OSIType d = 0" "oi_OSILength d = 0" "oi_OSIValue d = []"
  shows "OAMPDUInformation_Decode_loop d (pre @ OAMPDUInformation_tlv_bytes t l v) i
     = Some (Inr (d\<lparr>oi_OSIType := t, oi_OSILength := l, oi_OSIValue := v\<rparr>))"
  using ok
proof (cases rule: tlv_ok_cases)
  case absent
  with i z show ?thesis
    by (simp add: OAMPDUInformation_tlv_bytes_def Decode_loop_end)
next
  case present
  have "OAMPDUInformation_Decode_loop d (pre @ (t # l # v) @ []) i =
      OAMPDUInformation_Decode_loop (d\<lparr>oi_OSIType := t, oi_OSILength := l, oi_OSIValue := v\<rparr>)
        (pre @ (t # l # v) @ []) (i + unat l)"
    using present i
    by (subst Decode_loop_present [where pre = pre and t = t and l = l and v = v and rest = "[]"])
       (simp_all add: OampduTlvTypeLocalInfo_def OampduTlvTypeRemoteInfo_def
          OampduTlvTypeOrganizationSpecificInfo_def)
  with present i show ?thesis
    by (simp add: OAMPDUInformation_tlv_bytes_def Decode_loop_end)
qed

lemma Decode_loop_RI:
  assumes ok: "OAMPDUInformation_tlv_ok OampduTlvTypeRemoteInfo t l v"
    and ok3: "OAMPDUInformation_tlv_ok OampduTlvTypeOrganizationSpecificInfo t3 l3 v3"
    and i: "i = length pre"
    and z: "oi_RIType d = 0" "oi_RILength d = 0" "oi_RIValue d = []"
      "oi_OSIType d = 0" "oi_OSILength d = 0" "oi_OSIValue d = []"
  shows "OAMPDUInformation_Decode_loop d
       (pre @ OAMPDUInformation_tlv_bytes t l v @ OAMPDUInformation_tlv_bytes t3 l3 v3) i
     = Some (Inr (d\<lparr>oi_RIType := t, oi_RILength := l, oi_RIValue := v,
                      oi_OSIType := t3, oi_OSILength := l3, oi_OSIValue := v3\<rparr>))"
  using ok
proof (cases rule: tlv_ok_cases)
  case absent
  with i z Decode_loop_OSI [OF ok3, of i pre d] show ?thesis
    by (simp add: OAMPDUInformation_tlv_bytes_def)
next
  case present
  let ?data = "pre @ (t # l # v) @ OAMPDUInformation_tlv_bytes t3 l3 v3"
  let ?d = "d\<lparr>oi_RIType := t, oi_RILength := l, oi_RIValue := v\<rparr>"
  have "OAMPDUInformation_Decode_loop d ?data i =
      OAMPDUInformation_Decode_loop ?d ?data (i + unat l)"
    using present i
    by (subst Decode_loop_present [where pre = pre and t = t and l = l and v = v
          and rest = "OAMPDUInformation_tlv_bytes t3 l3 v3"])
       (simp_all add: OampduTlvTypeLocalInfo_def OampduTlvTypeRemoteInfo_def
          OampduTlvTypeOrganizationSpecificInfo_def)
  moreover have "OAMPDUInformation_Decode_loop ?d
       ((pre @ t # l # v) @ OAMPDUInformation_tlv_bytes t3 l3 v3) (i + unat l)
     = Some (Inr (?d\<lparr>oi_OSIType := t3, oi_OSILength := l3, oi_OSIValue := v3\<rparr>))"
    using present i z by (intro Decode_loop_OSI [OF ok3]) simp_all
  ultimately show ?thesis using present
    by (simp add: OAMPDUInformation_tlv_bytes_def)
qed

lemma Decode_loop_LI:
  assumes ok: "OAMPDUInformation_tlv_ok OampduTlvTypeLocalInfo t l v"
    and ok2: "OAMPDUInformation_tlv_ok OampduTlvTypeRemoteInfo t2 l2 v2"
    and ok3: "OAMPDUInformation_tlv_ok OampduTlvTypeOrganizationSpecificInfo t3 l3 v3"
    and i: "i = length pre"
    and z: "oi_LIType d = 0" "oi_LILength d = 0" "oi_LIValue d = []"
      "oi_RIType d = 0" "oi_RILength d = 0" "oi_RIValue d = []"
      "oi_OSIType d = 0" "oi_OSILength d = 0" "oi_OSIValue d = []"
  shows "OAMPDUInformation_Decode_loop d
       (pre @ OAMPDUInformation_tlv_bytes t l v @ OAMPDUInformation_tlv_bytes t2 l2 v2
            @ OAMPDUInformation_tlv_bytes t3 l3 v3) i
     = Some (Inr (d\<lparr>oi_LIType := t, oi_LILength := l, oi_LIValue := v,
                      oi_RIType := t2, oi_RILength := l2, oi_RIValue := v2,
                      oi_OSIType := t3, oi_OSILength := l3, oi_OSIValue := v3\<rparr>))"
  using ok
proof (cases rule: tlv_ok_cases)
  case absent
  with i z Decode_loop_RI [OF ok2 ok3, of i pre d] show ?thesis
    by (simp add: OAMPDUInformation_tlv_bytes_def)
next
  case present
  let ?rest = "OAMPDUInformation_tlv_bytes t2 l2 v2 @ OAMPDUInformation_tlv_bytes t3 l3 v3"
  let ?data = "pre @ (t # l # v) @ ?rest"
  let ?d = "d\<lparr>oi_LIType := t, oi_LILength := l, oi_LIValue := v\<rparr>"
  have "OAMPDUInformation_Decode_loop d ?data i =
      OAMPDUInformation_Decode_loop ?d ?data (i + unat l)"
    using present i
    by (subst Decode_loop_present [where pre = pre and t = t and l = l and v = v
          and rest = ?rest])
       (simp_all add: OampduTlvTypeLocalInfo_def OampduTlvTypeRemoteInfo_def
          OampduTlvTypeOrganizationSpecificInfo_def)
  moreover have "OAMPDUInformation_Decode_loop ?d
       ((pre @ t # l # v) @ OAMPDUInformation_tlv_bytes t2 l2 v2
          @ OAMPDUInformation_tlv_bytes t3 l3 v3) (i + unat l)
     = Some (Inr (?d\<lparr>oi_RIType := t2, oi_RILength := l2, oi_RIValue := v2,
                      oi_OSIType := t3, oi_OSILength := l3, oi_OSIValue := v3\<rparr>))"
    using present i z by (intro Decode_loop_RI [OF ok2 ok3]) simp_all
  ultimately show ?thesis using present
    by (simp add: OAMPDUInformation_tlv_bytes_def)
qed

lemma OAMPDUInformation_Decode_bytes:
  assumes "OAMPDUInformation_wellformed x"
  shows "OAMPDUInformation_Decode OAMPDUInformation_zero (OAMPDUInformation_bytes x) = Some (Inr x)"
proof -
  from assms have
    li: "OAMPDUInformation_tlv_ok OampduTlvTypeLocalInfo (oi_LIType x) (oi_LILength x) (oi_LIValue x)"
    and ri: "OAMPDUInformation_tlv_ok OampduTlvTypeRemoteInfo (oi_RIType x) (oi_RILength x) (oi_RIValue x)"
    and osi: "OAMPDUInformation_tlv_ok OampduTlvTypeOrganizationSpecificInfo
          (oi_OSIType x) (oi_OSILength x) (oi_OSIValue x)"
    by (simp_all add: OAMPDUInformation_wellformed_def)
  let ?d = "OAMPDUInformation_bytes x"
  let ?rest = "OAMPDUInformation_tlv_bytes (oi_LIType x) (oi_LILength x) (oi_LIValue x)
     @ OAMPDUInformation_tlv_bytes (oi_RIType x) (oi_RILength x) (oi_RIValue x)
     @ OAMPDUInformation_tlv_bytes (oi_OSIType x) (oi_OSILength x) (oi_OSIValue x)"
  have h1: "get8 ?d 0 = Some (oi_Opcode x)"
    by (rule get8_at [where pre = "[]" and rest = "tl ?d"]; simp add: OAMPDUInformation_bytes_def)
  have h2: "Uint16 ?d (0 + 1) = Some (oi_Flags x)"
    by (rule Uint16_at [where pre = "[oi_Opcode x]" and rest = "oi_Code x # ?rest"];
        simp add: OAMPDUInformation_bytes_def)
  have h3: "get8 ?d (0 + 1 + 2) = Some (oi_Code x)"
    by (rule get8_at [where pre = "oi_Opcode x # be16 (oi_Flags x)" and rest = "?rest"];
        simp add: OAMPDUInformation_bytes_def)
  let ?z = "OAMPDUInformation_zero\<lparr>oi_Opcode := oi_Opcode x, oi_Flags := oi_Flags x,
      oi_Code := oi_Code x\<rparr>"
  have loop: "OAMPDUInformation_Decode_loop ?z
       ((oi_Opcode x # be16 (oi_Flags x) @ [oi_Code x]) @ ?rest) (0 + 1 + 2 + 1)
     = Some (Inr (?z\<lparr>oi_LIType := oi_LIType x, oi_LILength := oi_LILength x,
                      oi_LIValue := oi_LIValue x,
                      oi_RIType := oi_RIType x, oi_RILength := oi_RILength x,
                      oi_RIValue := oi_RIValue x,
                      oi_OSIType := oi_OSIType x, oi_OSILength := oi_OSILength x,
                      oi_OSIValue := oi_OSIValue x\<rparr>))"
    by (rule Decode_loop_LI [OF li ri osi]) (simp_all add: OAMPDUInformation_zero_def)
  have d: "?d = (oi_Opcode x # be16 (oi_Flags x) @ [oi_Code x]) @ ?rest"
    by (simp add: OAMPDUInformation_bytes_def)
  have "OAMPDUInformation_Decode OAMPDUInformation_zero ?d
      = OAMPDUInformation_Decode_loop ?z ?d (0 + 1 + 2 + 1)"
    by (simp only: OAMPDUInformation_Decode_def Let_def h1 h2 h3 Option.bind.simps)
  also have "\<dots> = Some (Inr (?z\<lparr>oi_LIType := oi_LIType x, oi_LILength := oi_LILength x,
                      oi_LIValue := oi_LIValue x,
                      oi_RIType := oi_RIType x, oi_RILength := oi_RILength x,
                      oi_RIValue := oi_RIValue x,
                      oi_OSIType := oi_OSIType x, oi_OSILength := oi_OSILength x,
                      oi_OSIValue := oi_OSIValue x\<rparr>))"
    by (subst d) (rule loop)
  also have "\<dots> = Some (Inr x)"
    by (simp add: OAMPDUInformation_zero_def)
  finally show ?thesis .
qed

text \<open>
  Claim C1, as stated, fails for OAMPDU Information. In this value every length field is
  the byte count of its value (the Local Information TLV declares 2 and holds 2 bytes),
  but the serializer takes the length byte to count the type and length bytes as well:
  it emits the two-byte TLV header and no value byte, and decoding yields an empty value.
\<close>

theorem OAMPDUInformation_roundtrip_counterexample:
  "length (oi_LIValue \<lparr>oi_Opcode = 0x03, oi_Flags = 0x0008, oi_Code = 0x00,
        oi_LIType = 0x01, oi_LILength = 2, oi_LIValue = [0xaa, 0xbb],
        oi_RIType = 0, oi_RILength = 0, oi_RIValue = [],
        oi_OSIType = 0, oi_OSILength = 0, oi_OSIValue = []\<rparr>) = unat (2 :: u8)
   \<and> OAMPDUInformation_SerializeTo
       \<lparr>oi_Opcode = 0x03, oi_Flags = 0x0008, oi_Code = 0x00,
        oi_LIType = 0x01, oi_LILength = 2, oi_LIValue = [0xaa, 0xbb],
        oi_RIType = 0, oi_RILength = 0, oi_RIValue = [],
        oi_OSIType = 0, oi_OSILength = 0, oi_OSIValue = []\<rparr>
     = Some [0x03, 0x00, 0x08, 0x00, 0x01, 0x02]
   \<and> OAMPDUInformation_Decode OAMPDUInformation_zero [0x03, 0x00, 0x08, 0x00, 0x01, 0x02]
     = Some (Inr \<lparr>oi_Opcode = 0x03, oi_Flags = 0x0008, oi_Code = 0x00,
        oi_LIType = 0x01, oi_LILength = 2, oi_LIValue = [],
        oi_RIType = 0, oi_RILength = 0, oi_RIValue = [],
        oi_OSIType = 0, oi_OSILength = 0, oi_OSIValue = []\<rparr>)"
proof (intro conjI)
  show "length (oi_LIValue \<lparr>oi_Opcode = 0x03, oi_Flags = 0x0008, oi_Code = 0x00,
        oi_LIType = 0x01, oi_LILength = 2, oi_LIValue = [0xaa, 0xbb],
        oi_RIType = 0, oi_RILength = 0, oi_RIValue = [],
        oi_OSIType = 0, oi_OSILength = 0, oi_OSIValue = []\<rparr>) = unat (2 :: u8)"
    by simp
  have b: "be16 0x0008 = [0x00, 0x08]" by (simp add: be16_def)
  show "OAMPDUInformation_SerializeTo
       \<lparr>oi_Opcode = 0x03, oi_Flags = 0x0008, oi_Code = 0x00,
        oi_LIType = 0x01, oi_LILength = 2, oi_LIValue = [0xaa, 0xbb],
        oi_RIType = 0, oi_RILength = 0, oi_RIValue = [],
        oi_OSIType = 0, oi_OSILength = 0, oi_OSIValue = []\<rparr>
     = Some [0x03, 0x00, 0x08, 0x00, 0x01, 0x02]"
    by (simp add: OAMPDUInformation_SerializeTo_def OAMPDUInformation_Len_def Let_def
        zero_padded_writes)
       (simp add: zero_padded_def b)
  have u: "Uint16 [0x03, 0x00, 0x08, 0x00, 0x01, 0x02] (Suc 0) = Some 0x0008"
    by (simp add: Uint16_def slice_def)
  show "OAMPDUInformation_Decode OAMPDUInformation_zero [0x03, 0x00, 0x08, 0x00, 0x01, 0x02]
     = Some (Inr \<lparr>oi_Opcode = 0x03, oi_Flags = 0x0008, oi_Code = 0x00,
        oi_LIType = 0x01, oi_LILength = 2, oi_LIValue = [],
        oi_RIType = 0, oi_RILength = 0, oi_RIValue = [],
        oi_OSIType = 0, oi_OSILength = 0, oi_OSIValue = []\<rparr>)"
    by (simp add: OAMPDUInformation_Decode_def Let_def u get8_def slice_def
        OAMPDUInformation_Decode_loop.simps OAMPDUInformation_zero_def
        OampduTlvTypeLocalInfo_def)
qed

text \<open>
  Claim C1, amended. For Discovery Solicit and Discovery Hello and every legal value
  (the length field of each TLV is the byte count of its value, and \<open>Length\<close> is the
  byte count of the TLVs before the padding), encoding succeeds and decoding the bytes
  yields the value again. For OAMPDU Information the length byte of a TLV counts the
  type byte and itself too: for every value in which each of the three TLVs is either
  absent (type 0, length 0, no value) or carries its own type code (0x01, 0x02, 0xfe)
  and a length that is the byte count of its value plus 2, encoding succeeds and
  decoding the bytes into a zero struct yields the value again.
\<close>

theorem codec_roundtrip:
  "(DiscoverySolicit_legal s \<longrightarrow>
      Option.bind (DiscoverySolicit_SerializeTo s) DiscoverySolicit_Decode = Some s)
   \<and> (DiscoveryHello_legal h \<longrightarrow>
      Option.bind (DiscoveryHello_SerializeTo h) DiscoveryHello_Decode = Some h)
   \<and> (OAMPDUInformation_wellformed k \<longrightarrow>
      Option.bind (OAMPDUInformation_SerializeTo k)
        (OAMPDUInformation_Decode OAMPDUInformation_zero) = Some (Inr k))"
  by (simp add: DiscoverySolicit_SerializeTo_bytes DiscoverySolicit_Decode_bytes
      DiscoveryHello_SerializeTo_bytes DiscoveryHello_Decode_bytes
      OAMPDUInformation_SerializeTo_bytes OAMPDUInformation_Decode_bytes)

theorem codec_roundtrip_witness:
  "Option.bind (DiscoverySolicit_SerializeTo
       \<lparr>ds_Opcode = 0xfd, ds_DiscoveryType = 0x01, ds_VendorType = 0xfe, ds_Length = 33,
        ds_VendorIDType = 0xfd, ds_VendorIDLength = 3, ds_VendorID = [0x2a, 0xea, 0x15],
        ds_CPType = 0x05, ds_CPLength = 1, ds_CPValue = [128],
        ds_NWType = 0x06, ds_NWLength = 12,
        ds_NWValue = [0x74, 0x69, 0x62, 0x69, 0x74, 0x63, 0x6f, 0x6d, 0x2e, 0x63, 0x6f, 0x6d],
        ds_DVType = 0x07, ds_DVLength = 1, ds_DVValue = [1],
        ds_SCPType = 0x08, ds_SCPLength = 1, ds_SCPValue = [0x03],
        ds_PadType = 0xff, ds_PadLength = 1, ds_PadValue = [0]\<rparr>) DiscoverySolicit_Decode
   = Some \<lparr>ds_Opcode = 0xfd, ds_DiscoveryType = 0x01, ds_VendorType = 0xfe, ds_Length = 33,
        ds_VendorIDType = 0xfd, ds_VendorIDLength = 3, ds_VendorID = [0x2a, 0xea, 0x15],
        ds_CPType = 0x05, ds_CPLength = 1, ds_CPValue = [128],
        ds_NWType = 0x06, ds_NWLength = 12,
        ds_NWValue = [0x74, 0x69, 0x62, 0x69, 0x74, 0x63, 0x6f, 0x6d, 0x2e, 0x63, 0x6f, 0x6d],
        ds_DVType = 0x07, ds_DVLength = 1, ds_DVValue = [1],
        ds_SCPType = 0x08, ds_SCPLength = 1, ds_SCPValue = [0x03],
        ds_PadType = 0xff, ds_PadLength = 1, ds_PadValue = [0]\<rparr>
   \<and> Option.bind (DiscoveryHello_SerializeTo
       \<lparr>dh_Opcode = 0xfd, dh_DiscoveryType = 0x02, dh_VendorType = 0xfe, dh_Length = 34,
        dh_VendorIDType = 0xfd, dh_VendorIDLength = 3, dh_VendorID = [0x2a, 0xea, 0x15],
        dh_NWType = 0x06, dh_NWLength = 12,
        dh_NWValue = [0x74, 0x69, 0x62, 0x69, 0x74, 0x63, 0x6f, 0x6d, 0x2e, 0x63, 0x6f, 0x6d],
        dh_DVType = 0x07, dh_DVLength = 1, dh_DVValue = [2],
        dh_SCPType = 0x08, dh_SCPLength = 1, dh_SCPValue = [0x03],
        dh_TunnelType = 0x0a, dh_TunnelLength = 2, dh_TunnelValue = [0x00, 0x01],
        dh_PadType = 0xff, dh_PadLength = 1, dh_PadValue = [0]\<rparr>) DiscoveryHello_Decode
   = Some \<lparr>dh_Opcode = 0xfd, dh_DiscoveryType = 0x02, dh_VendorType = 0xfe, dh_Length = 34,
        dh_VendorIDType = 0xfd, dh_VendorIDLength = 3, dh_VendorID = [0x2a, 0xea, 0x15],
        dh_NWType = 0x06, dh_NWLength = 12,
        dh_NWValue = [0x74, 0x69, 0x62, 0x69, 0x74, 0x63, 0x6f, 0x6d, 0x2e, 0x63, 0x6f, 0x6d],
        dh_DVType = 0x07, dh_DVLength = 1, dh_DVValue = [2],
        dh_SCPType = 0x08, dh_SCPLength = 1, dh_SCPValue = [0x03],
        dh_TunnelType = 0x0a, dh_TunnelLength = 2, dh_TunnelValue = [0x00, 0x01],
        dh_PadType = 0xff, dh_PadLength = 1, dh_PadValue = [0]\<rparr>
   \<and> Option.bind (OAMPDUInformation_SerializeTo
       \<lparr>oi_Opcode = 0x03, oi_Flags = 0x0008, oi_Code = 0x00,
        oi_LIType = 0x01, oi_LILength = 16,
        oi_LIValue = [0x01, 0x00, 0x00, 0x00, 0x1b, 0x04, 0xb0, 0x2a, 0xea, 0x15, 0x00, 0x00, 0x00, 0x23],
        oi_RIType = 0, oi_RILength = 0, oi_RIValue = [],
        oi_OSIType = 0xfe, oi_OSILength = 7, oi_OSIValue = [0x00, 0x10, 0x00, 0x00, 0x23]\<rparr>)
      (OAMPDUInformation_Decode OAMPDUInformation_zero)
   = Some (Inr \<lparr>oi_Opcode = 0x03, oi_Flags = 0x0008, oi_Code = 0x00,
        oi_LIType = 0x01, oi_LILength = 16,
        oi_LIValue = [0x01, 0x00, 0x00, 0x00, 0x1b, 0x04, 0xb0, 0x2a, 0xea, 0x15, 0x00, 0x00, 0x00, 0x23],
        oi_RIType = 0, oi_RILength = 0, oi_RIValue = [],
        oi_OSIType = 0xfe, oi_OSILength = 7, oi_OSIValue = [0x00, 0x10, 0x00, 0x00, 0x23]\<rparr>)"
  using codec_roundtrip [where s = "\<lparr>ds_Opcode = 0xfd, ds_DiscoveryType = 0x01, ds_VendorType = 0xfe, ds_Length = 33,
        ds_VendorIDType = 0xfd, ds_VendorIDLength = 3, ds_VendorID = [0x2a, 0xea, 0x15],
        ds_CPType = 0x05, ds_CPLength = 1, ds_CPValue = [128],
        ds_NWType = 0x06, ds_NWLength = 12,
        ds_NWValue = [0x74, 0x69, 0x62, 0x69, 0x74, 0x63, 0x6f, 0x6d, 0x2e, 0x63, 0x6f, 0x6d],
        ds_DVType = 0x07, ds_DVLength = 1, ds_DVValue = [1],
        ds_SCPType = 0x08, ds_SCPLength = 1, ds_SCPValue = [0x03],
        ds_PadType = 0xff, ds_PadLength = 1, ds_PadValue = [0]\<rparr>"
      and h = "\<lparr>dh_Opcode = 0xfd, dh_DiscoveryType = 0x02, dh_VendorType = 0xfe, dh_Length = 34,
        dh_VendorIDType = 0xfd, dh_VendorIDLength = 3, dh_VendorID = [0x2a, 0xea, 0x15],
        dh_NWType = 0x06, dh_NWLength = 12,
        dh_NWValue = [0x74, 0x69, 0x62, 0x69, 0x74, 0x63, 0x6f, 0x6d, 0x2e, 0x63, 0x6f, 0x6d],
        dh_DVType = 0x07, dh_DVLength = 1, dh_DVValue = [2],
        dh_SCPType = 0x08, dh_SCPLength = 1, dh_SCPValue = [0x03],
        dh_TunnelType = 0x0a, dh_TunnelLength = 2, dh_TunnelValue = [0x00, 0x01],
        dh_PadType = 0xff, dh_PadLength = 1, dh_PadValue = [0]\<rparr>"
      and k = "\<lparr>oi_Opcode = 0x03, oi_Flags = 0x0008, oi_Code = 0x00,
        oi_LIType = 0x01, oi_LILength = 16,
        oi_LIValue = [0x01, 0x00, 0x00, 0x00, 0x1b, 0x04, 0xb0, 0x2a, 0xea, 0x15, 0x00, 0x00, 0x00, 0x23],
        oi_RIType = 0, oi_RILength = 0, oi_RIValue = [],
        oi_OSIType = 0xfe, oi_OSILength = 7, oi_OSIValue = [0x00, 0x10, 0x00, 0x00, 0x23]\<rparr>"]
  by (simp add: DiscoverySolicit_legal_def DiscoveryHello_legal_def
      OAMPDUInformation_wellformed_def OAMPDUInformation_tlv_ok_def
      OampduTlvTypeLocalInfo_def OampduTlvTypeRemoteInfo_def
      OampduTlvTypeOrganizationSpecificInfo_def)

subsection \<open>The add-flow-to-device sequence\<close>

lemma get8_in_range: "i < length data \<Longrightarrow> get8 data i = Some (data ! i)"
  by (simp add: get8_def)

lemma take2_drop:
  assumes "i + 2 \<le> length data"
  shows "take 2 (drop i data) = [data ! i, data ! (i + 1)]"
proof -
  have "drop i data = data ! i # drop (Suc i) data"
    using assms by (simp add: Cons_nth_drop_Suc)
  moreover have "drop (Suc i) data = data ! (Suc i) # drop (Suc (Suc i)) data"
    using assms by (simp add: Cons_nth_drop_Suc)
  ultimately show ?thesis by (simp add: numeral_2_eq_2)
qed

lemma take4_drop:
  assumes "i + 4 \<le> length data"
  shows "take 4 (drop i data) = [data ! i, data ! (i + 1), data ! (i + 2), data ! (i + 3)]"
proof -
  have a: "drop i data = data ! i # drop (Suc i) data"
    using assms by (simp add: Cons_nth_drop_Suc)
  have b: "drop (Suc i) data = data ! (Suc i) # drop (Suc (Suc i)) data"
    using assms by (simp add: Cons_nth_drop_Suc)
  have c: "drop (Suc (Suc i)) data = data ! (Suc (Suc i)) # drop (Suc (Suc (Suc i))) data"
    using assms by (simp add: Cons_nth_drop_Suc)
  have d: "drop (Suc (Suc (Suc i))) data
           = data ! (Suc (Suc (Suc i))) # drop (Suc (Suc (Suc (Suc i)))) data"
    using assms by (simp add: Cons_nth_drop_Suc)
  have e: "take 4 xs = take (Suc (Suc (Suc (Suc 0)))) xs" for xs :: bytes
    by (simp add: eval_nat_numeral)
  have f: "i + 2 = Suc (Suc i)" "i + 3 = Suc (Suc (Suc i))" by simp_all
  show ?thesis
    unfolding e a by (simp add: b c d f)
qed

lemma Uint16_in_range:
  "i + 2 \<le> length data \<Longrightarrow>
   Uint16 data i = Some (push_bit 8 (ucast (data ! i)) OR ucast (data ! (i + 1)))"
  by (simp add: Uint16_def slice_def take2_drop)

lemma Uint32_in_range:
  "i + 4 \<le> length data \<Longrightarrow>
   Uint32 data i = Some (push_bit 24 (ucast (data ! i)) OR push_bit 16 (ucast (data ! (i + 1)))
                         OR push_bit 8 (ucast (data ! (i + 2))) OR ucast (data ! (i + 3)))"
  by (simp add: Uint32_def slice_def take4_drop)

lemma sendSetGenericActionCreateForDS_response:
  assumes "channel w = Response ether # rest" and "37 \<le> length (Payload ether)"
  shows "sendSetGenericActionCreateForDS device w =
    Some ((Some \<lparr>oc_Branch = Payload ether ! 29,
                 oc_Type = push_bit 8 (ucast (Payload ether ! 30)) OR ucast (Payload ether ! 31),
                 oc_Length = Payload ether ! 32,
                 oc_Instance = push_bit 24 (ucast (Payload ether ! 33))
                   OR push_bit 16 (ucast (Payload ether ! 34))
                   OR push_bit 8 (ucast (Payload ether ! 35)) OR ucast (Payload ether ! 36)\<rparr>, None),
          w\<lparr>requests := requests w @ [(device, GenerateGenericActionCreateDs)], channel := rest\<rparr>)"
proof -
  have r: "get8 (Payload ether) 29 = Some (Payload ether ! 29)"
    "Uint16 (Payload ether) (29 + 1)
       = Some (push_bit 8 (ucast (Payload ether ! 30)) OR ucast (Payload ether ! 31))"
    "get8 (Payload ether) (29 + 1 + 2) = Some (Payload ether ! 32)"
    "Uint32 (Payload ether) (29 + 1 + 2 + 1)
       = Some (push_bit 24 (ucast (Payload ether ! 33))
                   OR push_bit 16 (ucast (Payload ether ! 34))
                   OR push_bit 8 (ucast (Payload ether ! 35)) OR ucast (Payload ether ! 36))"
    using assms(2) by (simp_all add: get8_in_range Uint16_in_range Uint32_in_range)
  have s: "device_send device GenerateGenericActionCreateDs w
           = (False, w\<lparr>requests := requests w @ [(device, GenerateGenericActionCreateDs)]\<rparr>)"
    using assms(1) by (simp add: device_send_def)
  have t: "device_waitResponse device
             (w\<lparr>requests := requests w @ [(device, GenerateGenericActionCreateDs)]\<rparr>)
           = (Inr ether,
              w\<lparr>requests := requests w @ [(device, GenerateGenericActionCreateDs)],
                channel := rest\<rparr>)"
    using assms(1) by (simp add: device_waitResponse_def)
  show ?thesis
    unfolding sendSetGenericActionCreateForDS_def
    by (simp only: s t prod.case bool.case sum.case Let_def r Option.bind.simps)
qed

lemma sendSetL2SwitchingDomainForDS_state:
  "requests (snd (sendSetL2SwitchingDomainForDS device oc tpid vid w))
     = requests w @ [(device, GenerateL2switchingDomainActionLnletEntryDs oc tpid vid)]"
  "deviceMap (snd (sendSetL2SwitchingDomainForDS device oc tpid vid w)) = deviceMap w"
  "flowVersion (snd (sendSetL2SwitchingDomainForDS device oc tpid vid w)) = flowVersion w"
  by (simp_all add: sendSetL2SwitchingDomainForDS_def device_send_def device_waitResponse_def
      split: list.splits exchange.splits)

lemma sendSetDefaultOutlet_state:
  "requests (snd (sendSetDefaultOutlet device oc onuID w))
     = requests w @ [(device, GenerateSetDefaultOutlet oc onuID)]"
  "deviceMap (snd (sendSetDefaultOutlet device oc onuID w)) = deviceMap w"
  "flowVersion (snd (sendSetDefaultOutlet device oc onuID w)) = flowVersion w"
  by (simp_all add: sendSetDefaultOutlet_def device_send_def device_waitResponse_def
      split: list.splits exchange.splits)

lemma sendSetL2SwitchingDomainForUS_state:
  "requests (snd (sendSetL2SwitchingDomainForUS device oc tpid vid onuID w))
     = requests w @ [(device, GenerateL2switchingDomainActionLnletEntryUs oc tpid vid onuID)]"
  "deviceMap (snd (sendSetL2SwitchingDomainForUS device oc tpid vid onuID w)) = deviceMap w"
  "flowVersion (snd (sendSetL2SwitchingDomainForUS device oc tpid vid onuID w)) = flowVersion w"
  by (simp_all add: sendSetL2SwitchingDomainForUS_def device_send_def device_waitResponse_def
      split: list.splits exchange.splits)

lemma updateMap_state:
  "requests (updateMap deviceID dev w) = requests w"
  "deviceMap (updateMap deviceID dev w) = (deviceMap w)(deviceID \<mapsto> dev)"
  "flowVersion (updateMap deviceID dev w) = flowVersion w"
  by (simp_all add: updateMap_def)

lemma L2oamAddFlowToDevice_first:
  assumes fv: "1 < flowVersion w"
    and olt: "deviceMap w olt_id = Some olt" "dev_ObjectContext olt = None"
    and onu: "deviceMap w (cmd_OnuDeviceID cmd) = Some onu" "dev_kind onu = OnuDevice"
      "dev_ObjectContext onu = Some onuID"
    and neq: "cmd_OnuDeviceID cmd \<noteq> olt_id"
    and create: "sendSetGenericActionCreateForDS olt_id w = Some ((Some oc, err01), w1)"
      "requests w1 = requests w @ [(olt_id, GenerateGenericActionCreateDs)]"
      "deviceMap w1 = deviceMap w" "flowVersion w1 = flowVersion w"
  shows "\<exists>w'. L2oamAddFlowToDevice olt_id cmd w = Some (None, w')
    \<and> requests w' = requests w @
        [(olt_id, GenerateGenericActionCreateDs),
         (olt_id, GenerateL2switchingDomainActionLnletEntryDs oc (cmd_Tpid cmd) (cmd_Vid cmd)),
         (olt_id, GenerateSetDefaultOutlet oc onuID),
         (olt_id, GenerateL2switchingDomainActionLnletEntryUs oc (cmd_Tpid cmd) (cmd_Vid cmd) onuID)]
    \<and> deviceMap w' = (deviceMap w)
        (olt_id \<mapsto> (if dev_kind olt = OltDevice
                     then olt\<lparr>dev_L2oamCmd := Some cmd, dev_ObjectContext := Some oc,
                            dev_FlowAdded := True\<rparr>
                     else olt\<lparr>dev_L2oamCmd := Some cmd, dev_ObjectContext := Some oc\<rparr>),
         cmd_OnuDeviceID cmd \<mapsto> onu\<lparr>dev_FlowAdded := True\<rparr>)
    \<and> flowVersion w' = flowVersion w"
  using fv olt onu neq create(2-)
  by (simp add: L2oamAddFlowToDevice_def FindL2oamDeviceByDeviceID_def create(1) Let_def
      split_beta updateMap_state sendSetL2SwitchingDomainForDS_state sendSetDefaultOutlet_state
      sendSetL2SwitchingDomainForUS_state)

lemma L2oamAddFlowToDevice_later:
  assumes fv: "1 < flowVersion w"
    and olt: "deviceMap w olt_id = Some olt" "dev_ObjectContext olt = Some oc"
      "dev_L2oamCmd olt = Some cmd0"
    and onu: "deviceMap w (cmd_OnuDeviceID cmd) = Some onu" "dev_kind onu = OnuDevice"
      "dev_ObjectContext onu = Some onuID"
  shows "\<exists>w'. L2oamAddFlowToDevice olt_id cmd w = Some (None, w')
    \<and> requests w' = requests w @
        [(olt_id, GenerateSetDefaultOutlet oc onuID),
         (olt_id, GenerateL2switchingDomainActionLnletEntryUs oc (cmd_Tpid cmd0) (cmd_Vid cmd0) onuID)]
    \<and> deviceMap w' = (deviceMap w)(cmd_OnuDeviceID cmd \<mapsto> onu\<lparr>dev_FlowAdded := True\<rparr>)
    \<and> flowVersion w' = flowVersion w"
  using fv olt onu
  by (simp add: L2oamAddFlowToDevice_def FindL2oamDeviceByDeviceID_def Let_def
      split_beta updateMap_state sendSetDefaultOutlet_state
      sendSetL2SwitchingDomainForUS_state)

text \<open>
  Claim C4, as stated, fails when the Generic-Action-Create of the first call is not
  answered. Here the first frame handed to \<open>send\<close> gets no response and the second
  one does. The call for ONU-A returns the error and stores nothing; the call for ONU-B
  then finds no object context in the OLT record and sends Generic-Action-Create and the
  down-stream Inlet-Entry itself; and the record of ONU-A still has \<open>FlowAdded = false\<close>
  after both calls.
\<close>

theorem L2oamAddFlowToDevice_timeout_counterexample:
  "Option.bind
     (L2oamAddFlowToDevice ''olt''
        \<lparr>cmd_Type = ''add-flow-dev'', cmd_Cir = [], cmd_Pir = [], cmd_Tpid = [0x88, 0xa8],
         cmd_Vid = [0x00, 0x64], cmd_Itpid = [], cmd_Ivid = [], cmd_OnuDeviceID = ''onu-a''\<rparr>
        \<lparr>deviceMap = [''olt'' \<mapsto> \<lparr>dev_kind = OltDevice, dev_FlowAdded = False,
                                   dev_ObjectContext = None, dev_L2oamCmd = None\<rparr>,
                       ''onu-a'' \<mapsto> \<lparr>dev_kind = OnuDevice, dev_FlowAdded = False,
                                   dev_ObjectContext = Some \<lparr>oc_Branch = 0x0c, oc_Type = 0x0011,
                                     oc_Length = 4, oc_Instance = 1\<rparr>, dev_L2oamCmd = None\<rparr>,
                       ''onu-b'' \<mapsto> \<lparr>dev_kind = OnuDevice, dev_FlowAdded = False,
                                   dev_ObjectContext = Some \<lparr>oc_Branch = 0x0c, oc_Type = 0x0011,
                                     oc_Length = 4, oc_Instance = 2\<rparr>, dev_L2oamCmd = None\<rparr>],
         flowVersion = 3, requests = [],
         channel = [NoResponse,
                    Response \<lparr>Contents = [], Payload =
                      [0, 0, 0, 0, 0, 0, 0, 0, 0, 0, 0, 0, 0, 0, 0, 0, 0, 0, 0, 0, 0, 0, 0, 0, 0, 0,
                       0, 0, 0, 0x0c, 0x0d, 0xce, 0x04, 0x00, 0x00, 0x00, 0x07],
                      SrcMAC = [], DstMAC = [], EthernetType = 0xa8c8\<rparr>]\<rparr>)
     (\<lambda>(resultA, wA).
        map_option
          (\<lambda>(resultB, wB). (resultA, requests wA, resultB, requests wB,
             map_option dev_FlowAdded (deviceMap wB ''onu-a'')))
          (L2oamAddFlowToDevice ''olt''
             \<lparr>cmd_Type = ''add-flow-dev'', cmd_Cir = [], cmd_Pir = [], cmd_Tpid = [0x88, 0xa8],
              cmd_Vid = [0x00, 0x65], cmd_Itpid = [], cmd_Ivid = [], cmd_OnuDeviceID = ''onu-b''\<rparr>
             wA))
   = Some (Some failed_to_add_flow_to_device_for_down_stream,
           [(''olt'', GenerateGenericActionCreateDs)],
           None,
           [(''olt'', GenerateGenericActionCreateDs),
            (''olt'', GenerateGenericActionCreateDs),
            (''olt'', GenerateL2switchingDomainActionLnletEntryDs
                \<lparr>oc_Branch = 0x0c, oc_Type = 0x0dce, oc_Length = 4, oc_Instance = 7\<rparr>
                [0x88, 0xa8] [0x00, 0x65]),
            (''olt'', GenerateSetDefaultOutlet
                \<lparr>oc_Branch = 0x0c, oc_Type = 0x0dce, oc_Length = 4, oc_Instance = 7\<rparr>
                \<lparr>oc_Branch = 0x0c, oc_Type = 0x0011, oc_Length = 4, oc_Instance = 2\<rparr>),
            (''olt'', GenerateL2switchingDomainActionLnletEntryUs
                \<lparr>oc_Branch = 0x0c, oc_Type = 0x0dce, oc_Length = 4, oc_Instance = 7\<rparr>
                [0x88, 0xa8] [0x00, 0x65]
                \<lparr>oc_Branch = 0x0c, oc_Type = 0x0011, oc_Length = 4, oc_Instance = 2\<rparr>)],
           Some False)"
  by (simp add: L2oamAddFlowToDevice_def FindL2oamDeviceByDeviceID_def updateMap_def
      sendSetGenericActionCreateForDS_def sendSetL2SwitchingDomainForDS_def
      sendSetDefaultOutlet_def sendSetL2SwitchingDomainForUS_def
      device_send_def device_waitResponse_def get8_def Uint16_def Uint32_def slice_def Let_def)

text \<open>
  Claim C4, amended. Let \<open>flowVersion\<close> be greater than 1 (it is 3 at the start and the
  code only ever assigns 2 or 3), let the OLT be registered as an OLT device whose stored
  switching-domain object context is nil, let ONU-A and ONU-B be registered as ONU
  devices that each have an object context, and let the first frame handed to \<open>send\<close>
  (the Generic-Action-Create) go out and be answered within \<open>ResponseTimer\<close> by a frame
  whose payload has at least 37 bytes. Then add-flow-to-device for ONU-A and then for
  ONU-B both return nil. The first call hands to \<open>send\<close>, in this order,
  Generic-Action-Create, the down-stream Inlet-Entry, Set-Default-Outlet for ONU-A and
  the up-stream Inlet-Entry for ONU-A. The second call hands to \<open>send\<close> only
  Set-Default-Outlet and the up-stream Inlet-Entry for ONU-B. All of them carry the
  object context read from bytes 29 to 36 of that response, and the Inlet-Entries of both
  calls carry the TPID and VID of the first call's command. After both calls the records
  of the OLT and of both ONUs have \<open>FlowAdded = true\<close>, the OLT record holds that object
  context and the first call's command, and no other record of the registry has changed.
  Whether the later frames are answered does not matter.
\<close>

theorem L2oamAddFlowToDevice_two_onus:
  assumes fv: "1 < flowVersion w"
    and olt: "deviceMap w olt_id = Some olt" "dev_kind olt = OltDevice"
      "dev_ObjectContext olt = None"
    and onuA: "deviceMap w (cmd_OnuDeviceID cmdA) = Some onuA" "dev_kind onuA = OnuDevice"
      "dev_ObjectContext onuA = Some ocA"
    and onuB: "deviceMap w (cmd_OnuDeviceID cmdB) = Some onuB" "dev_kind onuB = OnuDevice"
      "dev_ObjectContext onuB = Some ocB"
    and response: "channel w = Response ether # rest" "37 \<le> length (Payload ether)"
    and oc: "oc = \<lparr>oc_Branch = Payload ether ! 29,
                     oc_Type = push_bit 8 (ucast (Payload ether ! 30)) OR ucast (Payload ether ! 31),
                     oc_Length = Payload ether ! 32,
                     oc_Instance = push_bit 24 (ucast (Payload ether ! 33))
                       OR push_bit 16 (ucast (Payload ether ! 34))
                       OR push_bit 8 (ucast (Payload ether ! 35)) OR ucast (Payload ether ! 36)\<rparr>"
  shows "\<exists>wA wB.
      L2oamAddFlowToDevice olt_id cmdA w = Some (None, wA)
    \<and> L2oamAddFlowToDevice olt_id cmdB wA = Some (None, wB)
    \<and> requests wA = requests w @
        [(olt_id, GenerateGenericActionCreateDs),
         (olt_id, GenerateL2switchingDomainActionLnletEntryDs oc (cmd_Tpid cmdA) (cmd_Vid cmdA)),
         (olt_id, GenerateSetDefaultOutlet oc ocA),
         (olt_id, GenerateL2switchingDomainActionLnletEntryUs oc (cmd_Tpid cmdA) (cmd_Vid cmdA) ocA)]
    \<and> requests wB = requests wA @
        [(olt_id, GenerateSetDefaultOutlet oc ocB),
         (olt_id, GenerateL2switchingDomainActionLnletEntryUs oc (cmd_Tpid cmdA) (cmd_Vid cmdA) ocB)]
    \<and> deviceMap wB = (deviceMap w)
        (olt_id \<mapsto> olt\<lparr>dev_L2oamCmd := Some cmdA, dev_ObjectContext := Some oc,
                        dev_FlowAdded := True\<rparr>,
         cmd_OnuDeviceID cmdA \<mapsto> onuA\<lparr>dev_FlowAdded := True\<rparr>,
         cmd_OnuDeviceID cmdB \<mapsto> onuB\<lparr>dev_FlowAdded := True\<rparr>)"
proof -
  let ?a = "cmd_OnuDeviceID cmdA" and ?b = "cmd_OnuDeviceID cmdB"
  let ?olt = "olt\<lparr>dev_L2oamCmd := Some cmdA, dev_ObjectContext := Some oc, dev_FlowAdded := True\<rparr>"
  define w1 where
    "w1 = w\<lparr>requests := requests w @ [(olt_id, GenerateGenericActionCreateDs)], channel := rest\<rparr>"
  have create: "sendSetGenericActionCreateForDS olt_id w = Some ((Some oc, None), w1)"
    unfolding w1_def oc by (rule sendSetGenericActionCreateForDS_response [OF response])
  have w1: "requests w1 = requests w @ [(olt_id, GenerateGenericActionCreateDs)]"
    "deviceMap w1 = deviceMap w" "flowVersion w1 = flowVersion w"
    by (simp_all add: w1_def)
  have a_olt: "?a \<noteq> olt_id" using olt onuA by auto
  have b_olt: "?b \<noteq> olt_id" using olt onuB by auto
  from L2oamAddFlowToDevice_first [OF fv olt(1) olt(3) onuA a_olt create w1]
  obtain wA where A: "L2oamAddFlowToDevice olt_id cmdA w = Some (None, wA)"
    and reqA: "requests wA = requests w @
        [(olt_id, GenerateGenericActionCreateDs),
         (olt_id, GenerateL2switchingDomainActionLnletEntryDs oc (cmd_Tpid cmdA) (cmd_Vid cmdA)),
         (olt_id, GenerateSetDefaultOutlet oc ocA),
         (olt_id, GenerateL2switchingDomainActionLnletEntryUs oc (cmd_Tpid cmdA) (cmd_Vid cmdA) ocA)]"
    and mapA: "deviceMap wA = (deviceMap w)(olt_id \<mapsto> ?olt, ?a \<mapsto> onuA\<lparr>dev_FlowAdded := True\<rparr>)"
    and fvA: "flowVersion wA = flowVersion w"
    using olt(2) by auto
  define onuB' where "onuB' = (if ?b = ?a then onuA\<lparr>dev_FlowAdded := True\<rparr> else onuB)"
  have same: "?b = ?a \<Longrightarrow> onuB = onuA" using onuA(1) onuB(1) by simp
  have oltA: "deviceMap wA olt_id = Some ?olt" "dev_ObjectContext ?olt = Some oc"
    "dev_L2oamCmd ?olt = Some cmdA"
    using a_olt by (simp_all add: mapA)
  have onuB_A: "deviceMap wA ?b = Some onuB'" "dev_kind onuB' = OnuDevice"
    "dev_ObjectContext onuB' = Some ocB"
    using b_olt onuB onuA same by (auto simp add: mapA onuB'_def)
  have upd: "onuB'\<lparr>dev_FlowAdded := True\<rparr> = onuB\<lparr>dev_FlowAdded := True\<rparr>"
    using same by (simp add: onuB'_def)
  from L2oamAddFlowToDevice_later [OF _ oltA onuB_A] fv fvA
  obtain wB where B: "L2oamAddFlowToDevice olt_id cmdB wA = Some (None, wB)"
    and reqB: "requests wB = requests wA @
        [(olt_id, GenerateSetDefaultOutlet oc ocB),
         (olt_id, GenerateL2switchingDomainActionLnletEntryUs oc (cmd_Tpid cmdA) (cmd_Vid cmdA) ocB)]"
    and mapB: "deviceMap wB = (deviceMap wA)(?b \<mapsto> onuB'\<lparr>dev_FlowAdded := True\<rparr>)"
    by auto
  have "deviceMap wB = (deviceMap w)
        (olt_id \<mapsto> ?olt, ?a \<mapsto> onuA\<lparr>dev_FlowAdded := True\<rparr>, ?b \<mapsto> onuB\<lparr>dev_FlowAdded := True\<rparr>)"
    by (simp only: mapB mapA upd)
  with A B reqA reqB show ?thesis by blast
qed

theorem L2oamAddFlowToDevice_two_onus_witness:
  "\<exists>wA wB.
      L2oamAddFlowToDevice ''olt''
        \<lparr>cmd_Type = ''add-flow-dev'', cmd_Cir = [], cmd_Pir = [], cmd_Tpid = [0x88, 0xa8],
         cmd_Vid = [0x00, 0x64], cmd_Itpid = [], cmd_Ivid = [], cmd_OnuDeviceID = ''onu-a''\<rparr>
        \<lparr>deviceMap = [''olt'' \<mapsto> \<lparr>dev_kind = OltDevice, dev_FlowAdded = False,
                                   dev_ObjectContext = None, dev_L2oamCmd = None\<rparr>,
                       ''onu-a'' \<mapsto> \<lparr>dev_kind = OnuDevice, dev_FlowAdded = False,
                                   dev_ObjectContext = Some \<lparr>oc_Branch = 0x0c, oc_Type = 0x0011,
                                     oc_Length = 4, oc_Instance = 1\<rparr>, dev_L2oamCmd = None\<rparr>,
                       ''onu-b'' \<mapsto> \<lparr>dev_kind = OnuDevice, dev_FlowAdded = False,
                                   dev_ObjectContext = Some \<lparr>oc_Branch = 0x0c, oc_Type = 0x0011,
                                     oc_Length = 4, oc_Instance = 2\<rparr>, dev_L2oamCmd = None\<rparr>],
         flowVersion = flowVersion_init, requests = [],
         channel = [Response \<lparr>Contents = [], Payload =
                      [0, 0, 0, 0, 0, 0, 0, 0, 0, 0, 0, 0, 0, 0, 0, 0, 0, 0, 0, 0, 0, 0, 0, 0, 0, 0,
                       0, 0, 0, 0x0c, 0x0d, 0xce, 0x04, 0x00, 0x00, 0x00, 0x07],
                      SrcMAC = [], DstMAC = [], EthernetType = 0xa8c8\<rparr>]\<rparr>
      = Some (None, wA)
    \<and> L2oamAddFlowToDevice ''olt''
        \<lparr>cmd_Type = ''add-flow-dev'', cmd_Cir = [], cmd_Pir = [], cmd_Tpid = [0x88, 0xa8],
         cmd_Vid = [0x00, 0x65], cmd_Itpid = [], cmd_Ivid = [], cmd_OnuDeviceID = ''onu-b''\<rparr> wA
      = Some (None, wB)
    \<and> requests wA =
        [(''olt'', GenerateGenericActionCreateDs),
         (''olt'', GenerateL2switchingDomainActionLnletEntryDs
             \<lparr>oc_Branch = 0x0c, oc_Type = 0x0dce, oc_Length = 4, oc_Instance = 7\<rparr>
             [0x88, 0xa8] [0x00, 0x64]),
         (''olt'', GenerateSetDefaultOutlet
             \<lparr>oc_Branch = 0x0c, oc_Type = 0x0dce, oc_Length = 4, oc_Instance = 7\<rparr>
             \<lparr>oc_Branch = 0x0c, oc_Type = 0x0011, oc_Length = 4, oc_Instance = 1\<rparr>),
         (''olt'', GenerateL2switchingDomainActionLnletEntryUs
             \<lparr>oc_Branch = 0x0c, oc_Type = 0x0dce, oc_Length = 4, oc_Instance = 7\<rparr>
             [0x88, 0xa8] [0x00, 0x64]
             \<lparr>oc_Branch = 0x0c, oc_Type = 0x0011, oc_Length = 4, oc_Instance = 1\<rparr>)]
    \<and> requests wB = requests wA @
        [(''olt'', GenerateSetDefaultOutlet
             \<lparr>oc_Branch = 0x0c, oc_Type = 0x0dce, oc_Length = 4, oc_Instance = 7\<rparr>
             \<lparr>oc_Branch = 0x0c, oc_Type = 0x0011, oc_Length = 4, oc_Instance = 2\<rparr>),
         (''olt'', GenerateL2switchingDomainActionLnletEntryUs
             \<lparr>oc_Branch = 0x0c, oc_Type = 0x0dce, oc_Length = 4, oc_Instance = 7\<rparr>
             [0x88, 0xa8] [0x00, 0x64]
             \<lparr>oc_Branch = 0x0c, oc_Type = 0x0011, oc_Length = 4, oc_Instance = 2\<rparr>)]
    \<and> map_option dev_FlowAdded (deviceMap wB ''olt'') = Some True
    \<and> map_option dev_FlowAdded (deviceMap wB ''onu-a'') = Some True
    \<and> map_option dev_FlowAdded (deviceMap wB ''onu-b'') = Some True
    \<and> map_option dev_ObjectContext (deviceMap wB ''olt'')
        = Some (Some \<lparr>oc_Branch = 0x0c, oc_Type = 0x0dce, oc_Length = 4, oc_Instance = 7\<rparr>)"
proof -
  let ?olt = "\<lparr>dev_kind = OltDevice, dev_FlowAdded = False,
               dev_ObjectContext = None, dev_L2oamCmd = None\<rparr>"
  let ?ocA = "\<lparr>oc_Branch = 0x0c, oc_Type = 0x0011, oc_Length = 4, oc_Instance = 1\<rparr>"
  let ?ocB = "\<lparr>oc_Branch = 0x0c, oc_Type = 0x0011, oc_Length = 4, oc_Instance = 2\<rparr>"
  let ?onuA = "\<lparr>dev_kind = OnuDevice, dev_FlowAdded = False,
                dev_ObjectContext = Some ?ocA, dev_L2oamCmd = None\<rparr>"
  let ?onuB = "\<lparr>dev_kind = OnuDevice, dev_FlowAdded = False,
                dev_ObjectContext = Some ?ocB, dev_L2oamCmd = None\<rparr>"
  let ?ether = "\<lparr>Contents = [], Payload =
                      [0, 0, 0, 0, 0, 0, 0, 0, 0, 0, 0, 0, 0, 0, 0, 0, 0, 0, 0, 0, 0, 0, 0, 0, 0, 0,
                       0, 0, 0, 0x0c, 0x0d, 0xce, 0x04, 0x00, 0x00, 0x00, 0x07],
                      SrcMAC = [], DstMAC = [], EthernetType = 0xa8c8\<rparr>"
  let ?w = "\<lparr>deviceMap = [''olt'' \<mapsto> ?olt, ''onu-a'' \<mapsto> ?onuA, ''onu-b'' \<mapsto> ?onuB],
             flowVersion = flowVersion_init, requests = [], channel = [Response ?ether]\<rparr>"
  let ?cmdA = "\<lparr>cmd_Type = ''add-flow-dev'', cmd_Cir = [], cmd_Pir = [], cmd_Tpid = [0x88, 0xa8],
         cmd_Vid = [0x00, 0x64], cmd_Itpid = [], cmd_Ivid = [], cmd_OnuDeviceID = ''onu-a''\<rparr>"
  let ?cmdB = "\<lparr>cmd_Type = ''add-flow-dev'', cmd_Cir = [], cmd_Pir = [], cmd_Tpid = [0x88, 0xa8],
         cmd_Vid = [0x00, 0x65], cmd_Itpid = [], cmd_Ivid = [], cmd_OnuDeviceID = ''onu-b''\<rparr>"
  let ?oc = "\<lparr>oc_Branch = 0x0c, oc_Type = 0x0dce, oc_Length = 4, oc_Instance = 7\<rparr>"
  have "\<exists>wA wB.
      L2oamAddFlowToDevice ''olt'' ?cmdA ?w = Some (None, wA)
    \<and> L2oamAddFlowToDevice ''olt'' ?cmdB wA = Some (None, wB)
    \<and> requests wA = requests ?w @
        [(''olt'', GenerateGenericActionCreateDs),
         (''olt'', GenerateL2switchingDomainActionLnletEntryDs ?oc (cmd_Tpid ?cmdA) (cmd_Vid ?cmdA)),
         (''olt'', GenerateSetDefaultOutlet ?oc ?ocA),
         (''olt'', GenerateL2switchingDomainActionLnletEntryUs ?oc (cmd_Tpid ?cmdA) (cmd_Vid ?cmdA) ?ocA)]
    \<and> requests wB = requests wA @
        [(''olt'', GenerateSetDefaultOutlet ?oc ?ocB),
         (''olt'', GenerateL2switchingDomainActionLnletEntryUs ?oc (cmd_Tpid ?cmdA) (cmd_Vid ?cmdA) ?ocB)]
    \<and> deviceMap wB = (deviceMap ?w)
        (''olt'' \<mapsto> ?olt\<lparr>dev_L2oamCmd := Some ?cmdA, dev_ObjectContext := Some ?oc,
                        dev_FlowAdded := True\<rparr>,
         cmd_OnuDeviceID ?cmdA \<mapsto> ?onuA\<lparr>dev_FlowAdded := True\<rparr>,
         cmd_OnuDeviceID ?cmdB \<mapsto> ?onuB\<lparr>dev_FlowAdded := True\<rparr>)"
    by (rule L2oamAddFlowToDevice_two_onus [where ether = ?ether and rest = "[]"])
       (simp_all add: flowVersion_init_def)
  then obtain wA wB where
    "L2oamAddFlowToDevice ''olt'' ?cmdA ?w = Some (None, wA)"
    "L2oamAddFlowToDevice ''olt'' ?cmdB wA = Some (None, wB)"
    "requests wA = requests ?w @
        [(''olt'', GenerateGenericActionCreateDs),
         (''olt'', GenerateL2switchingDomainActionLnletEntryDs ?oc (cmd_Tpid ?cmdA) (cmd_Vid ?cmdA)),
         (''olt'', GenerateSetDefaultOutlet ?oc ?ocA),
         (''olt'', GenerateL2switchingDomainActionLnletEntryUs ?oc (cmd_Tpid ?cmdA) (cmd_Vid ?cmdA) ?ocA)]"
    "requests wB = requests wA @
        [(''olt'', GenerateSetDefaultOutlet ?oc ?ocB),
         (''olt'', GenerateL2switchingDomainActionLnletEntryUs ?oc (cmd_Tpid ?cmdA) (cmd_Vid ?cmdA) ?ocB)]"
    "deviceMap wB = (deviceMap ?w)
        (''olt'' \<mapsto> ?olt\<lparr>dev_L2oamCmd := Some ?cmdA, dev_ObjectContext := Some ?oc,
                        dev_FlowAdded := True\<rparr>,
         cmd_OnuDeviceID ?cmdA \<mapsto> ?onuA\<lparr>dev_FlowAdded := True\<rparr>,
         cmd_OnuDeviceID ?cmdB \<mapsto> ?onuB\<lparr>dev_FlowAdded := True\<rparr>)"
    by blast
  then show ?thesis
    by (intro exI [of _ wA] exI [of _ wB]) simp
qed

end
